theory Spec2Isabelle
  imports Complex_Main "HOL-Library.AList"
begin

section \<open>Python values\<close>

text \<open>
  The adapter of \<^verbatim>\<open>_openai_utils.py\<close> shapes dictionaries and pydantic objects.
  Values that the code only forwards (tool definitions, message content, decoded
  JSON, floats) are carried as \<open>pyval\<close>. A Python \<^verbatim>\<open>dict\<close> is an association list
  in insertion order, its keys values themselves (\<^verbatim>\<open>str\<close>, or \<^verbatim>\<open>bytes\<close> in the
  headers); \<^verbatim>\<open>d.update(k=v)\<close> is \<open>AList.update\<close>, which overwrites an existing key
  in place and appends a new one.
\<close>

datatype StopReason = end_of_turn | end_of_message | out_of_tokens

text \<open>
  \<^verbatim>\<open>BuiltinTool\<close>, the enum of llama_models that names the built-in tools; each member's
  value is its own name.
\<close>

datatype BuiltinTool = brave_search | wolfram_alpha | photogen | code_interpreter

datatype pyval =
    PNone
  | PBool bool
  | PInt int
  | PFloat real
  | PStr string
  | PBytes string
  | PEnumStopReason StopReason
  | PEnumBuiltinTool BuiltinTool
  | PList "pyval list"
  | PDict "(pyval \<times> pyval) list"

type_synonym pydict = "(pyval \<times> pyval) list"

text \<open>Every raise of the source is a value of \<open>error\<close>.\<close>

datatype error =
    AssertionError string
  | JSONDecodeError string
  | ValidationError
  | TypeError
  | IndexError

text \<open>\<^verbatim>\<open>StopReason.value\<close>: the string behind each member of the enum.\<close>

fun StopReason_value :: "StopReason \<Rightarrow> string" where
  "StopReason_value end_of_turn = ''end_of_turn''"
| "StopReason_value end_of_message = ''end_of_message''"
| "StopReason_value out_of_tokens = ''out_of_tokens''"

text \<open>
  Truthiness of a \<^verbatim>\<open>StopReason\<close>: the members of an \<^verbatim>\<open>Enum\<close> are all true (and
  their string values are non-empty, so a \<^verbatim>\<open>str\<close> mix-in would not change it).
\<close>

fun StopReason_truthy :: "StopReason \<Rightarrow> bool" where
  "StopReason_truthy r = True"

section \<open>Finish-reason mapper\<close>

text \<open>
  \<^verbatim>\<open>_convert_openai_finish_reason\<close> (the leading underscore is dropped throughout):
  a dictionary literal looked up with \<^verbatim>\<open>.get(finish_reason, StopReason.end_of_turn)\<close>.
  The argument is \<^verbatim>\<open>None\<close> when a chunk carries no finish reason; \<^verbatim>\<open>None\<close> is
  not a key of the table.
\<close>

definition finish_reason_table :: "(string \<times> StopReason) list" where
  "finish_reason_table =
     [(''stop'', end_of_turn), (''length'', out_of_tokens), (''tool_calls'', end_of_message)]"

definition convert_openai_finish_reason :: "string option \<Rightarrow> StopReason" where
  "convert_openai_finish_reason finish_reason =
     (case finish_reason of
        None \<Rightarrow> end_of_turn
      | Some k \<Rightarrow> (case map_of finish_reason_table k of
                    None \<Rightarrow> end_of_turn
                  | Some r \<Rightarrow> r))"

section \<open>Provider (OpenAI) types\<close>

text \<open>
  The fields the adapter reads, with the optionality of the docstrings. A tool call
  is always read as a complete call (\<^verbatim>\<open>id\<close>, \<^verbatim>\<open>function.name\<close>,
  \<^verbatim>\<open>function.arguments\<close>), in a streamed delta as in a message.
\<close>

record Function =
  fn_name :: string
  fn_arguments :: string

record OpenAIToolCall =
  tc_id :: string
  tc_function :: Function

record TopLogprob =
  tl_token :: string
  tl_logprob :: real

record ChatCompletionTokenLogprob =
  tok_token :: string
  tok_logprob :: real
  top_logprobs :: "TopLogprob list"

record ChoiceLogprobs =
  lp_content :: "ChatCompletionTokenLogprob list option"

record ChatCompletionMessage =
  msg_content :: "string option"
  msg_tool_calls :: "OpenAIToolCall list option"

record OpenAIChoice =
  message :: "ChatCompletionMessage option"
  finish_reason :: "string option"
  logprobs :: "ChoiceLogprobs option"

record ChoiceDelta =
  delta_content :: "string option"
  delta_tool_calls :: "OpenAIToolCall list option"

record ChunkChoice =
  delta :: ChoiceDelta
  chunk_finish_reason :: "string option"
  chunk_logprobs :: "ChoiceLogprobs option"

record OpenAIChatCompletionChunk =
  choices :: "ChunkChoice list"

section \<open>Stack types\<close>

text \<open>
  \<^verbatim>\<open>ToolCall\<close> is a pydantic model of llama_models: \<^verbatim>\<open>call_id: str\<close>,
  \<^verbatim>\<open>tool_name: Union[BuiltinTool, str]\<close> and \<^verbatim>\<open>arguments: Dict[str, RecursiveType]\<close>,
  where a \<^verbatim>\<open>RecursiveType\<close> is a primitive (a string, an integer, a float, a boolean or
  \<^verbatim>\<open>None\<close>), a list of primitives or a dictionary from strings to primitives.
\<close>

record ToolCall =
  call_id :: string
  tool_name :: "BuiltinTool + string"
  arguments :: pyval

datatype ToolCallParseStatus = started | in_progress | failure | success

record ToolCallDelta =
  tcd_content :: "string + ToolCall"
  parse_status :: ToolCallParseStatus

datatype event_delta = TextDelta string | CallDelta ToolCallDelta

record TokenLogProbs =
  logprobs_by_token :: "(string \<times> real) list"

datatype ChatCompletionResponseEventType = start | progress | complete

record ChatCompletionResponseEvent =
  event_type :: ChatCompletionResponseEventType
  event_delta :: event_delta
  event_logprobs :: "TokenLogProbs list option"
  stop_reason :: "StopReason option"

record ChatCompletionResponseStreamChunk =
  event :: ChatCompletionResponseEvent

record CompletionMessage =
  cm_content :: string
  cm_stop_reason :: StopReason
  cm_tool_calls :: "ToolCall list"

record ChatCompletionResponse =
  completion_message :: CompletionMessage
  response_logprobs :: "TokenLogProbs list option"

section \<open>Tool-call mapper\<close>

text \<open>
  \<^verbatim>\<open>json.loads\<close> belongs to the standard library, so the decoder is a parameter:
  \<open>json_loads s\<close> is \<open>Some v\<close> when \<open>s\<close> decodes to the value \<open>v\<close> and \<open>None\<close>
  when \<^verbatim>\<open>json.loads(s)\<close> raises \<^verbatim>\<open>JSONDecodeError\<close>. The error keeps the
  document that failed.
\<close>

type_synonym decoder = "string \<Rightarrow> pyval option"

text \<open>
  The constructor \<^verbatim>\<open>ToolCall(call_id=..., tool_name=..., arguments=...)\<close> validates its
  fields. Its validator of \<^verbatim>\<open>tool_name\<close> turns the name of a built-in tool into the
  member of \<^verbatim>\<open>BuiltinTool\<close> and leaves any other name a string. Arguments that are
  not a dictionary from strings to \<^verbatim>\<open>RecursiveType\<close> values raise
  \<^verbatim>\<open>ValidationError\<close>; arguments that are one are kept as they are.
\<close>

definition builtin_tool_table :: "(string \<times> BuiltinTool) list" where
  "builtin_tool_table =
     [(''brave_search'', brave_search), (''wolfram_alpha'', wolfram_alpha),
      (''photogen'', photogen), (''code_interpreter'', code_interpreter)]"

definition validate_tool_name :: "string \<Rightarrow> BuiltinTool + string" where
  "validate_tool_name name =
     (case map_of builtin_tool_table name of
        Some tool \<Rightarrow> Inl tool
      | None \<Rightarrow> Inr name)"

fun is_str :: "pyval \<Rightarrow> bool" where
  "is_str (PStr s) = True"
| "is_str v = False"

fun is_primitive :: "pyval \<Rightarrow> bool" where
  "is_primitive PNone = True"
| "is_primitive (PBool b) = True"
| "is_primitive (PInt i) = True"
| "is_primitive (PFloat f) = True"
| "is_primitive (PStr s) = True"
| "is_primitive v = False"

fun is_recursive_type :: "pyval \<Rightarrow> bool" where
  "is_recursive_type (PList xs) = list_all is_primitive xs"
| "is_recursive_type (PDict kvs) = list_all (\<lambda>kv. is_str (fst kv) \<and> is_primitive (snd kv)) kvs"
| "is_recursive_type v = is_primitive v"

fun valid_arguments :: "pyval \<Rightarrow> bool" where
  "valid_arguments (PDict kvs) =
     list_all (\<lambda>kv. is_str (fst kv) \<and> is_recursive_type (snd kv)) kvs"
| "valid_arguments v = False"

definition ToolCall_new :: "string \<Rightarrow> string \<Rightarrow> pyval \<Rightarrow> error + ToolCall" where
  "ToolCall_new cid name args =
     (if valid_arguments args
      then Inr \<lparr>call_id = cid, tool_name = validate_tool_name name, arguments = args\<rparr>
      else Inl ValidationError)"

text \<open>
  The element of the list comprehension, for one call: the arguments are decoded, then
  the constructor runs.
\<close>

definition convert_tool_call :: "decoder \<Rightarrow> OpenAIToolCall \<Rightarrow> error + ToolCall" where
  "convert_tool_call json_loads call =
     (case json_loads (fn_arguments (tc_function call)) of
        None \<Rightarrow> Inl (JSONDecodeError (fn_arguments (tc_function call)))
      | Some args \<Rightarrow> ToolCall_new (tc_id call) (fn_name (tc_function call)) args)"

text \<open>
  The list comprehension: calls are converted in order, each one before the next is
  looked at; the first failure raises.
\<close>

fun convert_each_tool_call :: "decoder \<Rightarrow> OpenAIToolCall list \<Rightarrow> error + ToolCall list" where
  "convert_each_tool_call json_loads [] = Inr []"
| "convert_each_tool_call json_loads (call # calls) =
     (case convert_tool_call json_loads call of
        Inl e \<Rightarrow> Inl e
      | Inr tool_call \<Rightarrow>
          (case convert_each_tool_call json_loads calls of
             Inl e \<Rightarrow> Inl e
           | Inr rest \<Rightarrow> Inr (tool_call # rest)))"

text \<open>\<^verbatim>\<open>if not tool_calls: return []\<close> covers \<^verbatim>\<open>None\<close> and the empty list.\<close>

definition convert_openai_tool_calls ::
  "decoder \<Rightarrow> OpenAIToolCall list option \<Rightarrow> error + ToolCall list" where
  "convert_openai_tool_calls json_loads tool_calls =
     (case tool_calls of
        None \<Rightarrow> Inr []
      | Some [] \<Rightarrow> Inr []
      | Some (call # calls) \<Rightarrow> convert_each_tool_call json_loads (call # calls))"

section \<open>Log-probability mapper\<close>

text \<open>
  The dict comprehension over \<^verbatim>\<open>content.top_logprobs\<close> keeps the last log-probability
  of a repeated token. Iterating \<^verbatim>\<open>logprobs.content\<close> when it is \<^verbatim>\<open>None\<close> raises
  \<^verbatim>\<open>TypeError\<close>.
\<close>

definition convert_openai_logprobs ::
  "ChoiceLogprobs option \<Rightarrow> error + TokenLogProbs list option" where
  "convert_openai_logprobs lp =
     (case lp of
        None \<Rightarrow> Inr None
      | Some l \<Rightarrow>
          (case lp_content l of
             None \<Rightarrow> Inl TypeError
           | Some positions \<Rightarrow>
               Inr (Some (map (\<lambda>position.
                        \<lparr>logprobs_by_token =
                           fold (\<lambda>t d. AList.update (tl_token t) (tl_logprob t) d)
                             (top_logprobs position) []\<rparr>)
                      positions))))"

section \<open>Non-stream response mapper\<close>

text \<open>\<^verbatim>\<open>x or ""\<close> on an optional string.\<close>

definition str_or_empty :: "string option \<Rightarrow> string" where
  "str_or_empty x = (case x of None \<Rightarrow> '''' | Some s \<Rightarrow> if s = '''' then '''' else s)"

text \<open>
  The two assertions come first, the message's before the finish reason's. A message
  object is true whenever it is there; a finish reason is false when it is \<^verbatim>\<open>None\<close>
  or empty. The constructor's arguments are evaluated in order: the tool calls
  before the log-probabilities.
\<close>

definition convert_openai_chat_completion_choice ::
  "decoder \<Rightarrow> OpenAIChoice \<Rightarrow> error + ChatCompletionResponse" where
  "convert_openai_chat_completion_choice json_loads choice =
     (case message choice of
        None \<Rightarrow> Inl (AssertionError ''error in server response: message not found'')
      | Some m \<Rightarrow>
          if finish_reason choice = None \<or> finish_reason choice = Some ''''
          then Inl (AssertionError ''error in server response: finish_reason not found'')
          else
            (case convert_openai_tool_calls json_loads (msg_tool_calls m) of
               Inl e \<Rightarrow> Inl e
             | Inr calls \<Rightarrow>
                 (case convert_openai_logprobs (logprobs choice) of
                    Inl e \<Rightarrow> Inl e
                  | Inr lps \<Rightarrow>
                      Inr \<lparr>completion_message =
                             \<lparr>cm_content = str_or_empty (msg_content m),
                              cm_stop_reason = convert_openai_finish_reason (finish_reason choice),
                              cm_tool_calls = calls\<rparr>,
                           response_logprobs = lps\<rparr>)))"

section \<open>Stream response mapper\<close>

text \<open>
  \<^verbatim>\<open>_event_type_generator\<close> yields \<^verbatim>\<open>start\<close> once and \<^verbatim>\<open>progress\<close> for ever. Its
  state is whether the first value has been taken; \<open>next_event_type\<close> is
  \<^verbatim>\<open>next(event_type)\<close>, returning the value and the generator's new state.
\<close>

definition next_event_type :: "bool \<Rightarrow> ChatCompletionResponseEventType \<times> bool" where
  "next_event_type taken = (if taken then progress else start, True)"

text \<open>
  The state carried from chunk to chunk: the generator and \<^verbatim>\<open>stop_reason\<close>, which
  starts as \<^verbatim>\<open>None\<close>.
\<close>

type_synonym stream_state = "bool \<times> StopReason option"

text \<open>
  What a run gives its consumer: the chunks yielded, in order, the warnings issued, and
  how it ended. A generator that raises has yielded every event before the raise.
\<close>

type_synonym 'r emitted = "ChatCompletionResponseStreamChunk list \<times> string list \<times> 'r"

definition multiple_tool_calls_warning :: string where
  "multiple_tool_calls_warning =
     ''multiple tool calls found in a single delta, using the first, ignoring the rest''"

definition mk_chunk ::
  "ChatCompletionResponseEventType \<Rightarrow> event_delta \<Rightarrow> TokenLogProbs list option
     \<Rightarrow> StopReason option \<Rightarrow> ChatCompletionResponseStreamChunk" where
  "mk_chunk ty d lps sr =
     \<lparr>event = \<lparr>event_type = ty, event_delta = d, event_logprobs = lps, stop_reason = sr\<rparr>\<rparr>"

text \<open>
  The body of the \<^verbatim>\<open>async for\<close> loop, for one chunk. \<^verbatim>\<open>chunk.choices[0]\<close> raises
  \<^verbatim>\<open>IndexError\<close> on a chunk without choices. The new stop reason is
  \<^verbatim>\<open>_convert_openai_finish_reason(choice.finish_reason) or stop_reason\<close>. In each
  event the arguments are evaluated in the order written: \<^verbatim>\<open>next(event_type)\<close>,
  the delta, the log-probabilities. The warning is issued before the tool calls are
  converted, and all of them are converted before the first is taken.
\<close>

definition process_chunk ::
  "decoder \<Rightarrow> stream_state \<Rightarrow> OpenAIChatCompletionChunk \<Rightarrow> (error + stream_state) emitted" where
  "process_chunk json_loads st chunk =
     (case choices chunk of
        [] \<Rightarrow> ([], [], Inl IndexError)
      | choice # _ \<Rightarrow>
          let r = convert_openai_finish_reason (chunk_finish_reason choice);
              stop_reason' = (if StopReason_truthy r then Some r else snd st)
          in
          (case delta_tool_calls (delta choice) of
             Some (call # calls) \<Rightarrow>
               (case (case delta_content (delta choice) of
                        Some (c # cs) \<Rightarrow>
                          (let (ty, gen) = next_event_type (fst st) in
                           case convert_openai_logprobs (chunk_logprobs choice) of
                             Inl e \<Rightarrow> Inl e
                           | Inr lps \<Rightarrow> Inr ([mk_chunk ty (TextDelta (c # cs)) lps None], gen))
                      | _ \<Rightarrow> Inr ([], fst st)) of
                  Inl e \<Rightarrow> ([], [], Inl e)
                | Inr (first, gen) \<Rightarrow>
                    let warned = (if length (call # calls) > 1
                                  then [multiple_tool_calls_warning] else []);
                        (ty, gen') = next_event_type gen
                    in
                    (case convert_openai_tool_calls json_loads (Some (call # calls)) of
                       Inl e \<Rightarrow> (first, warned, Inl e)
                     | Inr [] \<Rightarrow> (first, warned, Inl IndexError)
                     | Inr (tool_call # _) \<Rightarrow>
                         (case convert_openai_logprobs (chunk_logprobs choice) of
                            Inl e \<Rightarrow> (first, warned, Inl e)
                          | Inr lps \<Rightarrow>
                              (first @
                                 [mk_chunk ty
                                    (CallDelta \<lparr>tcd_content = Inr tool_call,
                                                parse_status = success\<rparr>)
                                    lps None],
                               warned, Inr (gen', stop_reason')))))
           | _ \<Rightarrow>
               (let (ty, gen) = next_event_type (fst st) in
                case convert_openai_logprobs (chunk_logprobs choice) of
                  Inl e \<Rightarrow> ([], [], Inl e)
                | Inr lps \<Rightarrow>
                    ([mk_chunk ty (TextDelta (str_or_empty (delta_content (delta choice)))) lps None],
                     [], Inr (gen, stop_reason')))))"

text \<open>
  The loop over the chunks of the stream, a finite list here: the first chunk that
  raises ends it, with the events of the chunks before it already yielded.
\<close>

fun stream_chunks ::
  "decoder \<Rightarrow> stream_state \<Rightarrow> OpenAIChatCompletionChunk list \<Rightarrow> (error + stream_state) emitted" where
  "stream_chunks json_loads st [] = ([], [], Inr st)"
| "stream_chunks json_loads st (chunk # rest) =
     (case process_chunk json_loads st chunk of
        (evs, ws, Inl e) \<Rightarrow> (evs, ws, Inl e)
      | (evs, ws, Inr st') \<Rightarrow>
          (case stream_chunks json_loads st' rest of
             (evs', ws', r) \<Rightarrow> (evs @ evs', ws @ ws', r)))"

text \<open>
  The whole generator: the loop, then the complete event with the stop reason. The
  last component is the error the consumer gets, \<open>None\<close> when the generator ends
  normally.
\<close>

definition convert_openai_chat_completion_stream ::
  "decoder \<Rightarrow> OpenAIChatCompletionChunk list \<Rightarrow> error option emitted" where
  "convert_openai_chat_completion_stream json_loads stream =
     (case stream_chunks json_loads (False, None) stream of
        (evs, ws, Inl e) \<Rightarrow> (evs, ws, Some e)
      | (evs, ws, Inr st) \<Rightarrow>
          (evs @ [mk_chunk complete (TextDelta '''') None (snd st)], ws, None))"

section \<open>Request mapper\<close>

text \<open>
  Modelled from the spec: the request types (\<^verbatim>\<open>ChatCompletionRequest\<close>, its sampling
  parameters, \<^verbatim>\<open>ToolChoice\<close>, \<^verbatim>\<open>Message\<close>) are declared outside this file. The
  fields are those the mapper reads. The strategy is a member of the enum
  \<^verbatim>\<open>SamplingStrategy\<close> (greedy, top_p, top_k), which is what a request carries once it
  is built; \<^verbatim>\<open>top_k\<close> is an integer; \<^verbatim>\<open>max_tokens\<close> is optional; the values that are
  only forwarded stay \<open>pyval\<close>. The tool choice is "auto" or "required", as the comment
  at the head of the mapper lists them. A message is carried as the dictionary that
  \<^verbatim>\<open>message.dict()\<close> returns: its role, its content and the further fields of its class
  (the stop reason and the tool calls of a completion message, the context of a user
  message).
\<close>

datatype ToolChoice = ToolChoice_auto | ToolChoice_required

fun ToolChoice_value :: "ToolChoice \<Rightarrow> string" where
  "ToolChoice_value ToolChoice_auto = ''auto''"
| "ToolChoice_value ToolChoice_required = ''required''"

datatype SamplingStrategy =
  SamplingStrategy_greedy | SamplingStrategy_top_p | SamplingStrategy_top_k

text \<open>
  \<^verbatim>\<open>request.sampling_params.strategy == "top_p"\<close>, a member of a plain \<^verbatim>\<open>Enum\<close> compared
  with a string. \<^verbatim>\<open>Enum\<close> does not define equality with anything but its own members
  and \<^verbatim>\<open>str\<close> defines none with an enum member, so the comparison is false for every
  member and every string, the member's own value included.
\<close>

fun SamplingStrategy_eq_str :: "SamplingStrategy \<Rightarrow> string \<Rightarrow> bool" where
  "SamplingStrategy_eq_str member literal = False"

record SamplingParams =
  strategy :: SamplingStrategy
  temperature :: pyval
  top_p :: pyval
  top_k :: int
  max_tokens :: "int option"
  repetition_penalty :: pyval

record LogProbConfig =
  logprobs_top_k :: pyval

type_synonym Message = pydict

record ChatCompletionRequest =
  model :: string
  messages :: "Message list"
  sampling_params :: "SamplingParams option"
  tools :: "pyval list option"
  tool_choice :: "ToolChoice option"
  stream :: pyval
  request_logprobs :: "LogProbConfig option"

text \<open>
  \<^verbatim>\<open>out_dict = message.dict()\<close> is the message itself. Every message has a role, so
  \<^verbatim>\<open>out_dict["role"]\<close> is there; a stop reason, where a message has one, is a member of
  \<^verbatim>\<open>StopReason\<close>, and \<^verbatim>\<open>.value\<close> is its string.
\<close>

definition convert_message :: "Message \<Rightarrow> pydict" where
  "convert_message m =
     (let out_dict = m;
          out_dict = (if map_of out_dict (PStr ''role'') = Some (PStr ''ipython'')
                      then AList.update (PStr ''role'') (PStr ''tool'') out_dict
                      else out_dict);
          out_dict = (case map_of out_dict (PStr ''stop_reason'') of
                        Some (PEnumStopReason r) \<Rightarrow>
                          AList.update (PStr ''stop_reason'') (PStr (StopReason_value r)) out_dict
                      | _ \<Rightarrow> out_dict)
      in out_dict)"

text \<open>
  \<^verbatim>\<open>nvext\<close> is the dictionary stored under \<^verbatim>\<open>payload["extra_body"]["nvext"]\<close>; the
  mapper keeps updating it after it has stored it, and the payload sees the updates.
  \<open>nvext_update\<close> is \<^verbatim>\<open>nvext.update(k=v)\<close> as the payload sees it, \<open>nvext_get\<close> reads
  a key of it through the payload, \<open>payload_get\<close> reads a top-level key.
\<close>

definition nvext_update :: "string \<Rightarrow> pyval \<Rightarrow> pydict \<Rightarrow> pydict" where
  "nvext_update k v payload =
     AList.map_entry (PStr ''extra_body'')
       (\<lambda>extra_body. case extra_body of
          PDict d \<Rightarrow>
            PDict (AList.map_entry (PStr ''nvext'')
                     (\<lambda>nvext. case nvext of
                        PDict nv \<Rightarrow> PDict (AList.update (PStr k) v nv)
                      | other \<Rightarrow> other) d)
        | other \<Rightarrow> other)
       payload"

definition payload_get :: "pydict \<Rightarrow> string \<Rightarrow> pyval option" where
  "payload_get payload k = map_of payload (PStr k)"

definition nvext_get :: "pydict \<Rightarrow> string \<Rightarrow> pyval option" where
  "nvext_get payload k =
     (case map_of payload (PStr ''extra_body'') of
        Some (PDict d) \<Rightarrow>
          (case map_of d (PStr ''nvext'') of
             Some (PDict nv) \<Rightarrow> map_of nv (PStr k)
           | _ \<Rightarrow> None)
      | _ \<Rightarrow> None)"

text \<open>The payload as first built, with the empty \<^verbatim>\<open>nvext\<close> inside.\<close>

definition initial_payload :: "ChatCompletionRequest \<Rightarrow> int \<Rightarrow> pydict" where
  "initial_payload request n =
     [(PStr ''model'', PStr (model request)),
      (PStr ''messages'', PList (map (\<lambda>m. PDict (convert_message m)) (messages request))),
      (PStr ''stream'', stream request),
      (PStr ''n'', PInt n),
      (PStr ''extra_body'', PDict [(PStr ''nvext'', PDict [])]),
      (PStr ''extra_headers'',
         PDict [(PBytes ''User-Agent'', PBytes ''llama-stack: nvidia-inference-adapter'')])]"

text \<open>
  \<^verbatim>\<open>if request.tools:\<close> holds for a list that is there and not empty;
  \<^verbatim>\<open>if request.tool_choice:\<close> for any member of the enum.
\<close>

definition add_tools :: "ChatCompletionRequest \<Rightarrow> pydict \<Rightarrow> pydict" where
  "add_tools request payload =
     (case tools request of
        Some (t # ts) \<Rightarrow>
          (let payload = AList.update (PStr ''tools'') (PList (t # ts)) payload
           in case tool_choice request of
                Some choice \<Rightarrow>
                  AList.update (PStr ''tool_choice'') (PStr (ToolChoice_value choice)) payload
              | None \<Rightarrow> payload)
      | _ \<Rightarrow> payload)"

definition add_logprobs :: "ChatCompletionRequest \<Rightarrow> pydict \<Rightarrow> pydict" where
  "add_logprobs request payload =
     (case request_logprobs request of
        Some lp \<Rightarrow>
          AList.update (PStr ''top_logprobs'') (logprobs_top_k lp)
            (AList.update (PStr ''logprobs'') (PBool True) payload)
      | None \<Rightarrow> payload)"

definition top_k_warning :: string where
  "top_k_warning = ''top_k must be -1 or >= 1''"

text \<open>
  The sampling block, returning the payload and the warnings issued.
  \<^verbatim>\<open>if request.sampling_params.max_tokens:\<close> fails for \<^verbatim>\<open>None\<close> and for 0.
\<close>

definition add_sampling_params :: "ChatCompletionRequest \<Rightarrow> pydict \<Rightarrow> pydict \<times> string list" where
  "add_sampling_params request payload =
     (case sampling_params request of
        None \<Rightarrow> (payload, [])
      | Some sp \<Rightarrow>
          let payload = nvext_update ''repetition_penalty'' (repetition_penalty sp) payload;
              payload = (case max_tokens sp of
                           Some m \<Rightarrow> if m \<noteq> 0
                                     then AList.update (PStr ''max_tokens'') (PInt m) payload
                                     else payload
                         | None \<Rightarrow> payload)
          in
          if SamplingStrategy_eq_str (strategy sp) ''top_p'' then
            (AList.update (PStr ''top_p'') (top_p sp)
               (nvext_update ''top_k'' (PInt (- 1)) payload), [])
          else if SamplingStrategy_eq_str (strategy sp) ''top_k'' then
            (nvext_update ''top_k'' (PInt (top_k sp)) payload,
             if top_k sp \<noteq> - 1 \<and> top_k sp < 1 then [top_k_warning] else [])
          else if SamplingStrategy_eq_str (strategy sp) ''greedy'' then
            (AList.update (PStr ''temperature'') (temperature sp)
               (nvext_update ''top_k'' (PInt (- 1)) payload), [])
          else (payload, []))"

definition convert_chat_completion_request ::
  "ChatCompletionRequest \<Rightarrow> int \<Rightarrow> pydict \<times> string list" where
  "convert_chat_completion_request request n =
     add_sampling_params request
       (add_logprobs request (add_tools request (initial_payload request n)))"

section \<open>Example inputs\<close>

text \<open>Concrete requests on which the theorems below are instantiated.\<close>

definition example_request ::
  "SamplingParams option \<Rightarrow> pyval list option \<Rightarrow> ToolChoice option \<Rightarrow> ChatCompletionRequest" where
  "example_request sp ts tc =
     \<lparr>model = ''llama'',
      messages = [[(PStr ''role'', PStr ''user''), (PStr ''content'', PStr ''hi''),
                   (PStr ''context'', PNone)]],
      sampling_params = sp, tools = ts, tool_choice = tc,
      stream = PBool False, request_logprobs = None\<rparr>"

definition example_sampling :: "SamplingStrategy \<Rightarrow> int \<Rightarrow> SamplingParams" where
  "example_sampling s k =
     \<lparr>strategy = s, temperature = PFloat 0.7, top_p = PFloat 0.95, top_k = k,
      max_tokens = Some 0, repetition_penalty = PFloat 1\<rparr>"

text \<open>
  The document \<^verbatim>\<open>{"x":1}\<close>, a decoder that knows it, \<^verbatim>\<open>{}\<close> and \<^verbatim>\<open>[1]\<close> and fails on
  every other string, and provider records built from their fields.
\<close>

definition example_arguments :: string where
  "example_arguments = [CHR ''{'', CHR 0x22, CHR ''x'', CHR 0x22, CHR '':'', CHR ''1'', CHR ''}'']"

text \<open>The document \<^verbatim>\<open>{"a":[[1]]}\<close>, a mapping whose value is a list of lists.\<close>

definition example_nested_arguments :: string where
  "example_nested_arguments =
     [CHR ''{'', CHR 0x22, CHR ''a'', CHR 0x22, CHR '':'',
      CHR ''['', CHR ''['', CHR ''1'', CHR '']'', CHR '']'', CHR ''}'']"

definition example_decoder :: decoder where
  "example_decoder =
     map_of [(example_arguments, PDict [(PStr ''x'', PInt 1)]),
             (example_nested_arguments, PDict [(PStr ''a'', PList [PList [PInt 1]])]),
             (''{}'', PDict []),
             (''[1]'', PList [PInt 1])]"

definition example_call :: "string \<Rightarrow> string \<Rightarrow> string \<Rightarrow> OpenAIToolCall" where
  "example_call i f a = \<lparr>tc_id = i, tc_function = \<lparr>fn_name = f, fn_arguments = a\<rparr>\<rparr>"

definition example_chunk ::
  "string option \<Rightarrow> OpenAIToolCall list option \<Rightarrow> string option \<Rightarrow> OpenAIChatCompletionChunk" where
  "example_chunk c calls fr =
     \<lparr>choices = [\<lparr>delta = \<lparr>delta_content = c, delta_tool_calls = calls\<rparr>,
                  chunk_finish_reason = fr, chunk_logprobs = None\<rparr>]\<rparr>"

definition example_choice ::
  "ChatCompletionMessage option \<Rightarrow> string option \<Rightarrow> OpenAIChoice" where
  "example_choice m fr = \<lparr>message = m, finish_reason = fr, logprobs = None\<rparr>"

section \<open>Predicates used in the statements\<close>

text \<open>
  A provider call is accepted when its arguments decode to a value that the constructor
  of \<^verbatim>\<open>ToolCall\<close> takes.
\<close>

definition accepted :: "decoder \<Rightarrow> OpenAIToolCall \<Rightarrow> bool" where
  "accepted json_loads call =
     (case json_loads (fn_arguments (tc_function call)) of
        None \<Rightarrow> False
      | Some args \<Rightarrow> valid_arguments args)"

text \<open>The stack tool call made of a provider call and its decoded arguments.\<close>

definition to_tool_call :: "OpenAIToolCall \<Rightarrow> pyval \<Rightarrow> ToolCall" where
  "to_tool_call call args =
     \<lparr>call_id = tc_id call,
      tool_name = validate_tool_name (fn_name (tc_function call)),
      arguments = args\<rparr>"

text \<open>The event types of a sequence of yielded chunks.\<close>

definition event_types ::
  "ChatCompletionResponseStreamChunk list \<Rightarrow> ChatCompletionResponseEventType list" where
  "event_types evs = map (\<lambda>c. event_type (event c)) evs"

text \<open>
  The lifecycle of a stream of events: one start event first, one complete event last,
  progress events only between them.
\<close>

definition lifecycle :: "ChatCompletionResponseEventType list \<Rightarrow> bool" where
  "lifecycle ts =
     (case ts of
        [] \<Rightarrow> False
      | t # rest \<Rightarrow> t = start \<and> rest \<noteq> [] \<and> last rest = complete
                    \<and> list_all (\<lambda>u. u = progress) (butlast rest))"

text \<open>The finish reason of the first choice of the last chunk, if there is one.\<close>

definition last_finish_reason :: "OpenAIChatCompletionChunk list \<Rightarrow> string option" where
  "last_finish_reason chunks =
     (if chunks = [] then None
      else case choices (last chunks) of
             [] \<Rightarrow> None
           | choice # _ \<Rightarrow> chunk_finish_reason choice)"

text \<open>The payload holds a dictionary under \<^verbatim>\<open>extra_body\<close>, with a dictionary under \<^verbatim>\<open>nvext\<close>.\<close>

definition has_nvext :: "pydict \<Rightarrow> bool" where
  "has_nvext payload =
     (case map_of payload (PStr ''extra_body'') of
        Some (PDict d) \<Rightarrow>
          (case map_of d (PStr ''nvext'') of Some (PDict nv) \<Rightarrow> True | _ \<Rightarrow> False)
      | _ \<Rightarrow> False)"

section \<open>Properties\<close>

subsection \<open>Reading the payload after an update\<close>

lemma has_nvextD:
  assumes "has_nvext p"
  obtains d nv where "map_of p (PStr ''extra_body'') = Some (PDict d)"
    and "map_of d (PStr ''nvext'') = Some (PDict nv)"
proof (cases "map_of p (PStr ''extra_body'')")
  case None
  with assms show ?thesis by (simp add: has_nvext_def)
next
  case (Some eb)
  show ?thesis
  proof (cases eb)
    case (PDict d)
    show ?thesis
    proof (cases "map_of d (PStr ''nvext'')")
      case None
      with assms Some PDict show ?thesis by (simp add: has_nvext_def)
    next
      case inner: (Some x)
      show ?thesis
      proof (cases x)
        case nv: (PDict nv)
        with Some PDict inner that show ?thesis by simp
      qed (use assms Some PDict inner in \<open>simp_all add: has_nvext_def\<close>)
    qed
  qed (use assms Some in \<open>simp_all add: has_nvext_def\<close>)
qed

lemma has_nvextI:
  "map_of p (PStr ''extra_body'') = Some (PDict d) \<Longrightarrow>
   map_of d (PStr ''nvext'') = Some (PDict nv) \<Longrightarrow> has_nvext p"
  by (simp add: has_nvext_def)

lemma nvext_get_nvext_update:
  assumes "has_nvext p"
  shows "nvext_get (nvext_update k v p) k' = (if k = k' then Some v else nvext_get p k')"
proof -
  from assms obtain d nv where "map_of p (PStr ''extra_body'') = Some (PDict d)"
    and "map_of d (PStr ''nvext'') = Some (PDict nv)" by (rule has_nvextD)
  then show ?thesis
    by (simp add: nvext_get_def nvext_update_def map_of_map_entry update_conv')
qed

lemma has_nvext_nvext_update:
  assumes "has_nvext p" shows "has_nvext (nvext_update k v p)"
proof -
  from assms obtain d nv where "map_of p (PStr ''extra_body'') = Some (PDict d)"
    and "map_of d (PStr ''nvext'') = Some (PDict nv)" by (rule has_nvextD)
  then show ?thesis
    by (simp add: has_nvext_def nvext_update_def map_of_map_entry)
qed


lemma payload_get_update:
  "payload_get (AList.update (PStr k) v p) k' = (if k = k' then Some v else payload_get p k')"
  by (simp add: payload_get_def update_conv')

lemma payload_get_nvext_update:
  "k' \<noteq> ''extra_body'' \<Longrightarrow> payload_get (nvext_update k v p) k' = payload_get p k'"
  by (simp add: payload_get_def nvext_update_def map_of_map_entry)

lemma nvext_get_update:
  "k \<noteq> ''extra_body'' \<Longrightarrow> nvext_get (AList.update (PStr k) v p) k' = nvext_get p k'"
  by (simp add: nvext_get_def update_conv')

lemma has_nvext_update:
  "k \<noteq> ''extra_body'' \<Longrightarrow> has_nvext (AList.update (PStr k) v p) = has_nvext p"
  by (simp add: has_nvext_def update_conv')

lemma has_nvext_initial: "has_nvext (initial_payload request n)"
  by (simp add: has_nvext_def initial_payload_def)

lemma nvext_get_initial: "nvext_get (initial_payload request n) k = None"
  by (simp add: nvext_get_def initial_payload_def)

lemma payload_get_initial:
  "k \<notin> {''model'', ''messages'', ''stream'', ''n'', ''extra_body'', ''extra_headers''} \<Longrightarrow>
   payload_get (initial_payload request n) k = None"
  by (simp add: payload_get_def initial_payload_def)

lemma has_nvext_add_tools: "has_nvext (add_tools request p) = has_nvext p"
  by (simp add: add_tools_def Let_def has_nvext_update split: option.splits list.splits)

lemma has_nvext_add_logprobs: "has_nvext (add_logprobs request p) = has_nvext p"
  by (simp add: add_logprobs_def has_nvext_update split: option.splits)

lemma nvext_get_add_tools: "nvext_get (add_tools request p) k = nvext_get p k"
  by (simp add: add_tools_def Let_def nvext_get_update split: option.splits list.splits)

lemma nvext_get_add_logprobs: "nvext_get (add_logprobs request p) k = nvext_get p k"
  by (simp add: add_logprobs_def nvext_get_update split: option.splits)

lemma payload_get_add_logprobs:
  "k \<noteq> ''logprobs'' \<Longrightarrow> k \<noteq> ''top_logprobs'' \<Longrightarrow>
   payload_get (add_logprobs request p) k = payload_get p k"
  by (simp add: add_logprobs_def payload_get_update split: option.splits)

lemma payload_get_add_tools:
  "k \<noteq> ''tools'' \<Longrightarrow> k \<noteq> ''tool_choice'' \<Longrightarrow>
   payload_get (add_tools request p) k = payload_get p k"
  by (simp add: add_tools_def Let_def payload_get_update split: option.splits list.splits)

lemma payload_get_add_sampling_params:
  "k \<notin> {''extra_body'', ''max_tokens'', ''top_p'', ''temperature''} \<Longrightarrow>
   payload_get (fst (add_sampling_params request p)) k = payload_get p k"
  by (auto simp: add_sampling_params_def Let_def payload_get_update payload_get_nvext_update
           split: option.splits)

subsection \<open>Finish-reason mapper\<close>

text \<open>
  C5. The finish-reason mapper is total and never fails (its result type has no
  error branch): it sends "stop" to end_of_turn, "length" to out_of_tokens,
  "tool_calls" to end_of_message, and every other argument, the absent one and the
  empty string included, to end_of_turn.
\<close>

theorem finish_reason_mapper_table:
  "convert_openai_finish_reason (Some ''stop'') = end_of_turn
   \<and> convert_openai_finish_reason (Some ''length'') = out_of_tokens
   \<and> convert_openai_finish_reason (Some ''tool_calls'') = end_of_message
   \<and> convert_openai_finish_reason None = end_of_turn
   \<and> convert_openai_finish_reason (Some '''') = end_of_turn
   \<and> (\<forall>fr. fr \<noteq> Some ''stop'' \<and> fr \<noteq> Some ''length'' \<and> fr \<noteq> Some ''tool_calls''
          \<longrightarrow> convert_openai_finish_reason fr = end_of_turn)"
  by (auto simp: convert_openai_finish_reason_def finish_reason_table_def split: option.splits)

theorem finish_reason_mapper_table_witness:
  "Some ''content_filter'' \<noteq> Some ''stop'' \<and> Some ''content_filter'' \<noteq> Some ''length''
   \<and> Some ''content_filter'' \<noteq> Some ''tool_calls''
   \<and> convert_openai_finish_reason (Some ''content_filter'') = end_of_turn"
  using finish_reason_mapper_table by simp

subsection \<open>Request mapper: tools and tool choice\<close>

lemma payload_get_tools_stage:
  "payload_get (add_tools request (initial_payload request n)) ''tool_choice'' =
     (case tools request of
        Some (t # ts) \<Rightarrow> map_option (\<lambda>c. PStr (ToolChoice_value c)) (tool_choice request)
      | _ \<Rightarrow> None)"
  "payload_get (add_tools request (initial_payload request n)) ''tools'' =
     (case tools request of Some (t # ts) \<Rightarrow> Some (PList (t # ts)) | _ \<Rightarrow> None)"
  by (simp_all add: add_tools_def Let_def payload_get_update payload_get_initial
        split: option.splits list.splits)

lemma payload_get_request_tool_keys:
  assumes "k = ''tool_choice'' \<or> k = ''tools''"
  shows "payload_get (fst (convert_chat_completion_request request n)) k =
         payload_get (add_tools request (initial_payload request n)) k"
  using assms
  by (auto simp: convert_chat_completion_request_def payload_get_add_sampling_params
        payload_get_add_logprobs)

text \<open>
  C4. The payload has a \<^verbatim>\<open>tool_choice\<close> key only when it has a \<^verbatim>\<open>tools\<close> key. The
  request's tools are present when \<^verbatim>\<open>request.tools\<close> is true, a list that is there and
  not empty (\<^verbatim>\<open>if request.tools:\<close> takes \<^verbatim>\<open>None\<close> and the empty list alike as unset);
  its tool choice is present when it is not \<^verbatim>\<open>None\<close>. With the tool choice unset the
  key is absent; with the tools unset
  the key is absent whatever the tool choice; with both set the key holds the string
  behind the tool choice, and the tools are copied.
\<close>

theorem tool_choice_only_with_tools:
  fixes request n
  defines "payload \<equiv> fst (convert_chat_completion_request request n)"
  shows "(payload_get payload ''tool_choice'' \<noteq> None \<longrightarrow> payload_get payload ''tools'' \<noteq> None)
    \<and> (tool_choice request = None \<longrightarrow> payload_get payload ''tool_choice'' = None)
    \<and> (tools request = None \<or> tools request = Some [] \<longrightarrow>
          payload_get payload ''tool_choice'' = None \<and> payload_get payload ''tools'' = None)
    \<and> (\<forall>ts c. tools request = Some ts \<and> ts \<noteq> [] \<and> tool_choice request = Some c \<longrightarrow>
          payload_get payload ''tool_choice'' = Some (PStr (ToolChoice_value c))
          \<and> payload_get payload ''tools'' = Some (PList ts))"
  unfolding payload_def
  by (auto simp: payload_get_request_tool_keys payload_get_tools_stage
        split: option.splits list.splits)


theorem tool_choice_only_with_tools_witness:
  "payload_get (fst (convert_chat_completion_request
       (example_request None (Some [PStr ''get_weather'']) (Some ToolChoice_required)) 1))
     ''tool_choice'' = Some (PStr ''required'')
   \<and> payload_get (fst (convert_chat_completion_request
       (example_request None (Some [PStr ''get_weather'']) (Some ToolChoice_required)) 1))
     ''tools'' = Some (PList [PStr ''get_weather''])
   \<and> payload_get (fst (convert_chat_completion_request
       (example_request None (Some [PStr ''get_weather'']) None) 1)) ''tool_choice'' = None
   \<and> payload_get (fst (convert_chat_completion_request
       (example_request None None (Some ToolChoice_auto)) 1)) ''tool_choice'' = None
   \<and> payload_get (fst (convert_chat_completion_request
       (example_request None (Some []) (Some ToolChoice_auto)) 1)) ''tool_choice'' = None"
  using tool_choice_only_with_tools
          [of "example_request None (Some [PStr ''get_weather'']) (Some ToolChoice_required)" 1]
        tool_choice_only_with_tools
          [of "example_request None (Some [PStr ''get_weather'']) None" 1]
        tool_choice_only_with_tools
          [of "example_request None None (Some ToolChoice_auto)" 1]
        tool_choice_only_with_tools
          [of "example_request None (Some []) (Some ToolChoice_auto)" 1]
  by (simp add: example_request_def)

subsection \<open>Request mapper: sampling strategy\<close>

lemma has_nvext_before_sampling:
  "has_nvext (add_logprobs request (add_tools request (initial_payload request n)))"
  by (simp add: has_nvext_add_logprobs has_nvext_add_tools has_nvext_initial)

lemma nvext_get_before_sampling:
  "nvext_get (add_logprobs request (add_tools request (initial_payload request n))) k = None"
  by (simp add: nvext_get_add_logprobs nvext_get_add_tools nvext_get_initial)

lemma payload_get_before_sampling:
  "k = ''top_p'' \<or> k = ''temperature'' \<Longrightarrow>
   payload_get (add_logprobs request (add_tools request (initial_payload request n))) k = None"
  by (auto simp: payload_get_add_logprobs payload_get_add_tools payload_get_initial)

lemma has_nvext_max_tokens:
  "has_nvext (case mt of None \<Rightarrow> p
              | Some m \<Rightarrow> if m \<noteq> 0 then AList.update (PStr ''max_tokens'') (PInt m) p else p)
   = has_nvext p"
  by (simp add: has_nvext_update split: option.splits)

lemma nvext_get_max_tokens:
  "nvext_get (case mt of None \<Rightarrow> p
              | Some m \<Rightarrow> if m \<noteq> 0 then AList.update (PStr ''max_tokens'') (PInt m) p else p) k
   = nvext_get p k"
  by (simp add: nvext_get_update split: option.splits)

lemma payload_get_max_tokens:
  "k \<noteq> ''max_tokens'' \<Longrightarrow>
   payload_get (case mt of None \<Rightarrow> p
              | Some m \<Rightarrow> if m \<noteq> 0 then AList.update (PStr ''max_tokens'') (PInt m) p else p) k
   = payload_get p k"
  by (simp add: payload_get_update split: option.splits)

lemmas sampling_simps =
  add_sampling_params_def Let_def
  has_nvext_max_tokens nvext_get_max_tokens payload_get_max_tokens
  has_nvext_nvext_update nvext_get_nvext_update nvext_get_update
  payload_get_update payload_get_nvext_update

lemma add_sampling_params_no_branch:
  assumes "has_nvext p"
  shows "nvext_get (fst (add_sampling_params request p)) ''top_k'' = nvext_get p ''top_k''"
    and "payload_get (fst (add_sampling_params request p)) ''top_p'' = payload_get p ''top_p''"
    and "payload_get (fst (add_sampling_params request p)) ''temperature''
           = payload_get p ''temperature''"
    and "snd (add_sampling_params request p) = []"
  using assms by (simp_all add: sampling_simps split: option.splits)

lemma add_sampling_params_repetition_penalty:
  assumes "has_nvext p" and "sampling_params request = Some sp"
  shows "nvext_get (fst (add_sampling_params request p)) ''repetition_penalty''
           = Some (repetition_penalty sp)"
  using assms by (simp add: sampling_simps)

text \<open>
  Whatever the request, the payload has no \<^verbatim>\<open>nvext.top_k\<close>, no \<^verbatim>\<open>top_p\<close> and no
  \<^verbatim>\<open>temperature\<close>, and no warning is issued: none of the three comparisons of the
  strategy with a string holds.
\<close>

lemma sampling_strategy_never_forwarded:
  "nvext_get (fst (convert_chat_completion_request request n)) ''top_k'' = None
   \<and> payload_get (fst (convert_chat_completion_request request n)) ''top_p'' = None
   \<and> payload_get (fst (convert_chat_completion_request request n)) ''temperature'' = None
   \<and> snd (convert_chat_completion_request request n) = []"
  by (simp add: convert_chat_completion_request_def
        add_sampling_params_no_branch [OF has_nvext_before_sampling]
        nvext_get_before_sampling payload_get_before_sampling)

text \<open>
  C3. The claim, like the comment at the head of the mapper, has strategy top_p set
  \<^verbatim>\<open>nvext.top_k\<close> to -1 and forward \<^verbatim>\<open>top_p\<close>, strategy top_k forward \<^verbatim>\<open>top_k\<close> (with a
  warning at 0) and strategy greedy set \<^verbatim>\<open>nvext.top_k\<close> to -1 and forward the
  temperature. The mapper does none of it: on a request with strategy top_p the payload
  has neither key, on requests with strategy top_k and values 5 and 0 it has no
  \<^verbatim>\<open>nvext.top_k\<close> and no warning is issued, and on a request with strategy greedy it
  has no \<^verbatim>\<open>nvext.top_k\<close> and no temperature. Only the repetition penalty, which is
  written before the comparisons, reaches \<^verbatim>\<open>nvext\<close>.
\<close>

theorem sampling_strategy_never_matches:
  "nvext_get (fst (convert_chat_completion_request
       (example_request (Some (example_sampling SamplingStrategy_top_p 0)) None None) 1)) ''top_k''
     = None
   \<and> payload_get (fst (convert_chat_completion_request
       (example_request (Some (example_sampling SamplingStrategy_top_p 0)) None None) 1)) ''top_p''
     = None
   \<and> nvext_get (fst (convert_chat_completion_request
       (example_request (Some (example_sampling SamplingStrategy_top_k 5)) None None) 1)) ''top_k''
     = None
   \<and> nvext_get (fst (convert_chat_completion_request
       (example_request (Some (example_sampling SamplingStrategy_top_k 0)) None None) 1)) ''top_k''
     = None
   \<and> snd (convert_chat_completion_request
       (example_request (Some (example_sampling SamplingStrategy_top_k 0)) None None) 1) = []
   \<and> nvext_get (fst (convert_chat_completion_request
       (example_request (Some (example_sampling SamplingStrategy_greedy 0)) None None) 1)) ''top_k''
     = None
   \<and> payload_get (fst (convert_chat_completion_request
       (example_request (Some (example_sampling SamplingStrategy_greedy 0)) None None) 1))
       ''temperature''
     = None
   \<and> nvext_get (fst (convert_chat_completion_request
       (example_request (Some (example_sampling SamplingStrategy_top_p 0)) None None) 1))
       ''repetition_penalty''
     = Some (PFloat 1)"
proof -
  have "nvext_get (fst (convert_chat_completion_request (example_request (Some sp) None None) 1))
          ''repetition_penalty'' = Some (repetition_penalty sp)" for sp
    by (simp add: convert_chat_completion_request_def example_request_def
          add_sampling_params_repetition_penalty [OF has_nvext_before_sampling])
  then show ?thesis
    by (simp add: sampling_strategy_never_forwarded example_sampling_def)
qed

subsection \<open>Tool-call mapper\<close>

lemma convert_tool_call_accepted:
  "json_loads (fn_arguments (tc_function call)) = Some args \<Longrightarrow> valid_arguments args \<Longrightarrow>
   convert_tool_call json_loads call = Inr (to_tool_call call args)"
  by (simp add: convert_tool_call_def ToolCall_new_def to_tool_call_def)

lemma convert_tool_call_accepted_ex:
  "accepted json_loads call \<Longrightarrow> \<exists>tool_call. convert_tool_call json_loads call = Inr tool_call"
  by (auto simp: accepted_def convert_tool_call_def ToolCall_new_def split: option.splits)

lemma convert_tool_call_not_decoded:
  "json_loads (fn_arguments (tc_function call)) = None \<Longrightarrow>
   convert_tool_call json_loads call = Inl (JSONDecodeError (fn_arguments (tc_function call)))"
  by (simp add: convert_tool_call_def)

lemma convert_tool_call_not_valid:
  "json_loads (fn_arguments (tc_function call)) = Some args \<Longrightarrow> \<not> valid_arguments args \<Longrightarrow>
   convert_tool_call json_loads call = Inl ValidationError"
  by (simp add: convert_tool_call_def ToolCall_new_def)

lemma convert_each_tool_call_decoded:
  "list_all2 (\<lambda>call args. json_loads (fn_arguments (tc_function call)) = Some args
                           \<and> valid_arguments args) calls argss
   \<Longrightarrow> convert_each_tool_call json_loads calls = Inr (map2 to_tool_call calls argss)"
  by (induction calls argss rule: list_all2_induct) (simp_all add: convert_tool_call_accepted)

lemma convert_each_tool_call_all_accepted:
  "\<forall>call \<in> set calls. accepted json_loads call \<Longrightarrow>
   \<exists>converted. convert_each_tool_call json_loads calls = Inr converted"
proof (induction calls)
  case Nil
  show ?case by simp
next
  case (Cons call calls)
  then obtain tool_call converted where
    "convert_tool_call json_loads call = Inr tool_call"
    "convert_each_tool_call json_loads calls = Inr converted"
    using convert_tool_call_accepted_ex [of json_loads call] by auto
  then show ?case by simp
qed

lemma convert_each_tool_call_first_failure:
  "\<forall>call \<in> set good. accepted json_loads call \<Longrightarrow>
   convert_tool_call json_loads bad = Inl e \<Longrightarrow>
   convert_each_tool_call json_loads (good @ bad # later) = Inl e"
proof (induction good)
  case Nil
  then show ?case by simp
next
  case (Cons call good)
  then obtain tool_call where "convert_tool_call json_loads call = Inr tool_call"
    using convert_tool_call_accepted_ex [of json_loads call] by auto
  with Cons show ?case by simp
qed

lemma convert_each_tool_call_result:
  "convert_each_tool_call json_loads calls = Inr tool_calls \<Longrightarrow>
   list_all2 (\<lambda>call tool_call.
        json_loads (fn_arguments (tc_function call)) = Some (arguments tool_call)
        \<and> valid_arguments (arguments tool_call)
        \<and> call_id tool_call = tc_id call
        \<and> tool_name tool_call = validate_tool_name (fn_name (tc_function call)))
     calls tool_calls"
proof (induction calls arbitrary: tool_calls)
  case Nil
  then show ?case by simp
next
  case (Cons call calls)
  from Cons.prems obtain tool_call rest where
    one: "convert_tool_call json_loads call = Inr tool_call"
    and more: "convert_each_tool_call json_loads calls = Inr rest"
    and all: "tool_calls = tool_call # rest"
    by (auto split: sum.splits)
  from one have "json_loads (fn_arguments (tc_function call)) = Some (arguments tool_call)
      \<and> valid_arguments (arguments tool_call)
      \<and> call_id tool_call = tc_id call
      \<and> tool_name tool_call = validate_tool_name (fn_name (tc_function call))"
    by (auto simp: convert_tool_call_def ToolCall_new_def split: option.splits if_splits)
  with Cons.IH [OF more] all show ?case by simp
qed

lemma convert_openai_tool_calls_each:
  "convert_openai_tool_calls json_loads (Some calls) = convert_each_tool_call json_loads calls"
  by (cases calls) (simp_all add: convert_openai_tool_calls_def)

text \<open>
  C6, as stated, fails in two ways. The constructor of \<^verbatim>\<open>ToolCall\<close> turns the name of a
  built-in tool into the member of \<^verbatim>\<open>BuiltinTool\<close>, so for a call of "brave_search" the
  tool name is that member and not the string of \<^verbatim>\<open>function.name\<close>. And the constructor
  takes only mappings whose values are primitives, lists of primitives or mappings of
  primitives: for the arguments \<^verbatim>\<open>{"a":[[1]]}\<close>, a mapping, the mapper fails.
\<close>

theorem tool_call_name_and_arguments_validated:
  "convert_openai_tool_calls example_decoder (Some [example_call ''1'' ''brave_search'' ''{}''])
     = Inr [\<lparr>call_id = ''1'', tool_name = Inl brave_search, arguments = PDict []\<rparr>]
   \<and> (Inl brave_search :: BuiltinTool + string) \<noteq> Inr ''brave_search''
   \<and> example_decoder example_nested_arguments = Some (PDict [(PStr ''a'', PList [PList [PInt 1]])])
   \<and> convert_openai_tool_calls example_decoder
       (Some [example_call ''1'' ''f'' example_nested_arguments])
     = Inl ValidationError"
  by (simp add: convert_openai_tool_calls_def convert_tool_call_def ToolCall_new_def
        validate_tool_name_def builtin_tool_table_def example_call_def example_decoder_def
        example_arguments_def example_nested_arguments_def)

text \<open>
  C6, amended. The tool-call mapper hands the decoded arguments on unchanged: when the
  arguments string of each provider call is the serialization of a mapping, that is,
  when the decoder returns that mapping on it, and the constructor of \<^verbatim>\<open>ToolCall\<close> takes
  that mapping, the result is the list of the tool calls, in the order of the input,
  each with \<^verbatim>\<open>id\<close> as \<^verbatim>\<open>call_id\<close>, that mapping as \<^verbatim>\<open>arguments\<close> and \<^verbatim>\<open>function.name\<close>
  as \<^verbatim>\<open>tool_name\<close>: the member of \<^verbatim>\<open>BuiltinTool\<close> when it names a built-in tool, the
  string itself otherwise. Conversely, whenever the mapper returns a list, each tool
  call of it carries what the decoder returned on the arguments string of its call.
  An absent list and an empty list both give the empty list, a value and not an absent
  one.
\<close>

theorem tool_call_arguments_round_trip:
  "(list_all2 (\<lambda>call m. json_loads (fn_arguments (tc_function call)) = Some (PDict m)
                        \<and> valid_arguments (PDict m)) calls ms
      \<longrightarrow> convert_openai_tool_calls json_loads (Some calls)
            = Inr (map2 (\<lambda>call m. \<lparr>call_id = tc_id call,
                                     tool_name = validate_tool_name (fn_name (tc_function call)),
                                     arguments = PDict m\<rparr>) calls ms))
   \<and> (\<forall>tool_calls.
        convert_openai_tool_calls json_loads (Some calls) = Inr tool_calls \<longrightarrow>
        list_all2 (\<lambda>call tool_call.
            json_loads (fn_arguments (tc_function call)) = Some (arguments tool_call)
            \<and> call_id tool_call = tc_id call
            \<and> tool_name tool_call = validate_tool_name (fn_name (tc_function call)))
          calls tool_calls)
   \<and> (\<forall>name. name \<notin> set (map fst builtin_tool_table) \<longrightarrow> validate_tool_name name = Inr name)
   \<and> validate_tool_name ''brave_search'' = Inl brave_search
   \<and> validate_tool_name ''wolfram_alpha'' = Inl wolfram_alpha
   \<and> validate_tool_name ''photogen'' = Inl photogen
   \<and> validate_tool_name ''code_interpreter'' = Inl code_interpreter
   \<and> convert_openai_tool_calls json_loads None = Inr []
   \<and> convert_openai_tool_calls json_loads (Some []) = Inr []"
proof -
  have "convert_openai_tool_calls json_loads (Some calls)
          = Inr (map2 (\<lambda>call m. \<lparr>call_id = tc_id call,
                                   tool_name = validate_tool_name (fn_name (tc_function call)),
                                   arguments = PDict m\<rparr>) calls ms)"
    if *: "list_all2 (\<lambda>call m. json_loads (fn_arguments (tc_function call)) = Some (PDict m)
                        \<and> valid_arguments (PDict m)) calls ms"
  proof -
    from * have "list_all2 (\<lambda>call args. json_loads (fn_arguments (tc_function call)) = Some args
                              \<and> valid_arguments args) calls (map PDict ms)"
      by (simp add: list_all2_map2)
    then have "convert_each_tool_call json_loads calls
                 = Inr (map2 to_tool_call calls (map PDict ms))"
      by (rule convert_each_tool_call_decoded)
    then show ?thesis
      by (simp add: convert_openai_tool_calls_each zip_map2 to_tool_call_def case_prod_unfold)
  qed
  moreover have "list_all2 (\<lambda>call tool_call.
            json_loads (fn_arguments (tc_function call)) = Some (arguments tool_call)
            \<and> call_id tool_call = tc_id call
            \<and> tool_name tool_call = validate_tool_name (fn_name (tc_function call)))
          calls tool_calls"
    if "convert_openai_tool_calls json_loads (Some calls) = Inr tool_calls" for tool_calls
  proof -
    from that have "convert_each_tool_call json_loads calls = Inr tool_calls"
      by (simp add: convert_openai_tool_calls_each)
    from convert_each_tool_call_result [OF this] show ?thesis
      by (rule list_all2_mono) simp
  qed
  moreover have "validate_tool_name name = Inr name"
    if "name \<notin> set (map fst builtin_tool_table)" for name
    using that by (auto simp: validate_tool_name_def map_of_eq_None_iff split: option.splits)
  ultimately show ?thesis
    by (simp add: convert_openai_tool_calls_def validate_tool_name_def builtin_tool_table_def)
qed

theorem tool_call_arguments_round_trip_witness:
  "list_all2 (\<lambda>call m. example_decoder (fn_arguments (tc_function call)) = Some (PDict m)
                        \<and> valid_arguments (PDict m))
     [example_call ''1'' ''f'' example_arguments, example_call ''2'' ''photogen'' ''{}'']
     [[(PStr ''x'', PInt 1)], []]
   \<and> ''f'' \<notin> set (map fst builtin_tool_table)
   \<and> convert_openai_tool_calls example_decoder
       (Some [example_call ''1'' ''f'' example_arguments, example_call ''2'' ''photogen'' ''{}''])
       = Inr [\<lparr>call_id = ''1'', tool_name = Inr ''f'', arguments = PDict [(PStr ''x'', PInt 1)]\<rparr>,
              \<lparr>call_id = ''2'', tool_name = Inl photogen, arguments = PDict []\<rparr>]
   \<and> list_all2 (\<lambda>call tool_call.
          example_decoder (fn_arguments (tc_function call)) = Some (arguments tool_call)
          \<and> call_id tool_call = tc_id call
          \<and> tool_name tool_call = validate_tool_name (fn_name (tc_function call)))
        [example_call ''1'' ''f'' example_arguments, example_call ''2'' ''photogen'' ''{}'']
        [\<lparr>call_id = ''1'', tool_name = Inr ''f'', arguments = PDict [(PStr ''x'', PInt 1)]\<rparr>,
         \<lparr>call_id = ''2'', tool_name = Inl photogen, arguments = PDict []\<rparr>]"
proof -
  have h: "list_all2 (\<lambda>call m. example_decoder (fn_arguments (tc_function call)) = Some (PDict m)
                        \<and> valid_arguments (PDict m))
     [example_call ''1'' ''f'' example_arguments, example_call ''2'' ''photogen'' ''{}'']
     [[(PStr ''x'', PInt 1)], []]"
    by (simp add: example_decoder_def example_call_def example_arguments_def
          example_nested_arguments_def)
  have n: "''f'' \<notin> set (map fst builtin_tool_table)"
    by (simp add: builtin_tool_table_def)
  from tool_call_arguments_round_trip
         [of example_decoder
             "[example_call ''1'' ''f'' example_arguments, example_call ''2'' ''photogen'' ''{}'']"
             "[[(PStr ''x'', PInt 1)], []]"]
       h n
  show ?thesis by (simp add: example_call_def)
qed

subsection \<open>Stream response mapper: one chunk, and the loop\<close>

lemma process_chunk_ok:
  assumes "process_chunk json_loads st chunk = (evs, ws, Inr st')"
  shows "fst st' = True"
    and "\<exists>choice rest. choices chunk = choice # rest
           \<and> snd st' = Some (convert_openai_finish_reason (chunk_finish_reason choice))"
    and "\<exists>n. event_types evs = (if fst st then progress else start) # replicate n progress"
  using assms
  by (auto simp: process_chunk_def Let_def next_event_type_def mk_chunk_def event_types_def
        split: list.splits option.splits sum.splits prod.splits if_splits
        intro: exI [of _ 0] exI [of _ "Suc 0"])

lemma lifecycle_start_progress_complete:
  "lifecycle (start # replicate n progress @ [complete])"
  by (simp add: lifecycle_def list_all_iff)

lemma stream_chunks_append:
  "stream_chunks json_loads st (xs @ ys) =
     (case stream_chunks json_loads st xs of
        (evs, ws, Inl e) \<Rightarrow> (evs, ws, Inl e)
      | (evs, ws, Inr st') \<Rightarrow>
          (case stream_chunks json_loads st' ys of
             (evs', ws', r) \<Rightarrow> (evs @ evs', ws @ ws', r)))"
proof (induction xs arbitrary: st)
  case Nil
  show ?case by (simp split: prod.splits)
next
  case (Cons x xs)
  show ?case
    by (simp add: Cons.IH split: prod.splits sum.splits)
qed

lemma stream_chunks_started:
  assumes "stream_chunks json_loads (True, sr) chunks = (evs, ws, Inr st')"
  shows "\<exists>n. event_types evs = replicate n progress"
  using assms
proof (induction chunks arbitrary: sr evs ws)
  case Nil
  then show ?case by (simp add: event_types_def)
next
  case (Cons c cs)
  from Cons.prems obtain e1 w1 s1 e2 w2 where
    pc: "process_chunk json_loads (True, sr) c = (e1, w1, Inr s1)"
    and rest: "stream_chunks json_loads s1 cs = (e2, w2, Inr st')"
    and evs: "evs = e1 @ e2"
    by (auto split: prod.splits sum.splits)
  from process_chunk_ok(1) [OF pc] obtain sr1 where s1: "s1 = (True, sr1)"
    by (cases s1) auto
  from process_chunk_ok(3) [OF pc] obtain n where n: "event_types e1 = progress # replicate n progress"
    by auto
  from Cons.IH [OF rest [unfolded s1]] obtain m where m: "event_types e2 = replicate m progress"
    by auto
  have "event_types evs = replicate (Suc n + m) progress"
    using n m evs by (simp add: event_types_def replicate_add)
  then show ?case by blast
qed

lemma stream_chunks_first:
  assumes "stream_chunks json_loads (False, sr) chunks = (evs, ws, Inr st')"
    and "chunks \<noteq> []"
  shows "\<exists>n. event_types evs = start # replicate n progress"
proof -
  from assms(2) obtain c cs where cs: "chunks = c # cs" by (cases chunks) auto
  from assms(1) [unfolded cs] obtain e1 w1 s1 e2 w2 where
    pc: "process_chunk json_loads (False, sr) c = (e1, w1, Inr s1)"
    and rest: "stream_chunks json_loads s1 cs = (e2, w2, Inr st')"
    and evs: "evs = e1 @ e2"
    by (auto split: prod.splits sum.splits)
  from process_chunk_ok(1) [OF pc] obtain sr1 where s1: "s1 = (True, sr1)"
    by (cases s1) auto
  from process_chunk_ok(3) [OF pc] obtain n where n: "event_types e1 = start # replicate n progress"
    by auto
  from stream_chunks_started [OF rest [unfolded s1]] obtain m
    where m: "event_types e2 = replicate m progress" by auto
  have "event_types evs = start # replicate (n + m) progress"
    using n m evs by (simp add: event_types_def replicate_add)
  then show ?thesis by blast
qed

lemma stream_chunks_stop_reason:
  assumes "stream_chunks json_loads st chunks = (evs, ws, Inr st')"
    and "chunks \<noteq> []"
  shows "snd st' = Some (convert_openai_finish_reason (last_finish_reason chunks))"
  using assms
proof (induction chunks arbitrary: st evs ws)
  case Nil
  then show ?case by simp
next
  case (Cons c cs)
  from Cons.prems(1) obtain e1 w1 s1 e2 w2 where
    pc: "process_chunk json_loads st c = (e1, w1, Inr s1)"
    and rest: "stream_chunks json_loads s1 cs = (e2, w2, Inr st')"
    by (auto split: prod.splits sum.splits)
  show ?case
  proof (cases cs)
    case Nil
    with rest have "st' = s1" by simp
    with process_chunk_ok(2) [OF pc] Nil show ?thesis
      by (auto simp: last_finish_reason_def)
  next
    case (Cons d ds)
    with Cons.IH [OF rest] show ?thesis by (simp add: last_finish_reason_def)
  qed
qed

lemma stream_lifecycle:
  assumes "convert_openai_chat_completion_stream json_loads chunks = (evs, ws, None)"
    and "chunks \<noteq> []"
  shows "lifecycle (event_types evs)"
proof -
  from assms(1) obtain e1 st' where
    sc: "stream_chunks json_loads (False, None) chunks = (e1, ws, Inr st')"
    and evs: "evs = e1 @ [mk_chunk complete (TextDelta '''') None (snd st')]"
    by (auto simp: convert_openai_chat_completion_stream_def split: prod.splits sum.splits)
  from stream_chunks_first [OF sc assms(2)] obtain n
    where "event_types e1 = start # replicate n progress" by auto
  then have "event_types evs = start # replicate n progress @ [complete]"
    using evs by (simp add: event_types_def mk_chunk_def)
  then show ?thesis by (simp add: lifecycle_start_progress_complete)
qed

subsection \<open>Stream response mapper: what one chunk yields\<close>

lemma stream_chunks_taken:
  assumes "stream_chunks json_loads st chunks = (evs, ws, Inr st')"
  shows "fst st' = (if chunks = [] then fst st else True)"
  using assms
proof (induction chunks arbitrary: st evs ws)
  case Nil
  then show ?case by simp
next
  case (Cons c cs)
  from Cons.prems(1) obtain e1 w1 s1 e2 w2 where
    pc: "process_chunk json_loads st c = (e1, w1, Inr s1)"
    and rest: "stream_chunks json_loads s1 cs = (e2, w2, Inr st')"
    by (auto split: prod.splits sum.splits)
  from Cons.IH [OF rest] process_chunk_ok(1) [OF pc] show ?case by simp
qed

lemma process_chunk_content_and_calls:
  assumes choice: "choices chunk = choice # others"
    and tx: "delta_content (delta choice) = Some said" "said \<noteq> ''''"
    and calls: "delta_tool_calls (delta choice) = Some (call # calls)"
    and first: "json_loads (fn_arguments (tc_function call)) = Some args" "valid_arguments args"
    and others: "\<forall>c \<in> set calls. accepted json_loads c"
    and lps: "convert_openai_logprobs (chunk_logprobs choice) = Inr lps"
  shows "process_chunk json_loads st chunk =
     ([mk_chunk (if fst st then progress else start) (TextDelta said) lps None,
       mk_chunk progress
         (CallDelta \<lparr>tcd_content = Inr (to_tool_call call args), parse_status = success\<rparr>)
         lps None],
      (if calls = [] then [] else [multiple_tool_calls_warning]),
      Inr (True, Some (convert_openai_finish_reason (chunk_finish_reason choice))))"
proof -
  from others obtain converted where "convert_each_tool_call json_loads calls = Inr converted"
    using convert_each_tool_call_all_accepted by blast
  with first have conv: "convert_openai_tool_calls json_loads (Some (call # calls))
      = Inr (to_tool_call call args # converted)"
    by (simp add: convert_openai_tool_calls_def convert_tool_call_accepted)
  from tx obtain c cs where t: "said = c # cs" by (cases said) auto
  show ?thesis
    using choice tx(1) calls lps conv
    by (simp add: process_chunk_def Let_def next_event_type_def t)
qed

lemma process_chunk_tool_calls_fail:
  assumes choice: "choices chunk = choice # others"
    and calls: "delta_tool_calls (delta choice) = Some calls"
    and conv: "convert_openai_tool_calls json_loads (Some calls) = Inl e"
  shows "process_chunk json_loads st chunk =
     (case delta_content (delta choice) of
        Some (c # cs) \<Rightarrow>
          (case convert_openai_logprobs (chunk_logprobs choice) of
             Inl e' \<Rightarrow> ([], [], Inl e')
           | Inr lps \<Rightarrow>
               ([mk_chunk (if fst st then progress else start) (TextDelta (c # cs)) lps None],
                (if length calls > 1 then [multiple_tool_calls_warning] else []),
                Inl e))
      | _ \<Rightarrow> ([], (if length calls > 1 then [multiple_tool_calls_warning] else []), Inl e))"
proof -
  from conv obtain call rest where c: "calls = call # rest"
    by (cases calls) (auto simp: convert_openai_tool_calls_def)
  show ?thesis
  proof (cases "delta_content (delta choice)")
    case None
    with choice calls conv show ?thesis
      unfolding c by (simp add: process_chunk_def Let_def next_event_type_def)
  next
    case (Some said)
    show ?thesis
    proof (cases said)
      case Nil
      with Some choice calls conv show ?thesis
        unfolding c by (simp add: process_chunk_def Let_def next_event_type_def)
    next
      case (Cons x xs)
      show ?thesis
      proof (cases "convert_openai_logprobs (chunk_logprobs choice)")
        case (Inl e')
        with Cons Some choice calls conv show ?thesis
          unfolding c by (simp add: process_chunk_def Let_def next_event_type_def)
      next
        case (Inr lps)
        with Cons Some choice calls conv show ?thesis
          unfolding c by (simp add: process_chunk_def Let_def next_event_type_def)
      qed
    qed
  qed
qed

lemmas stream_eval =
  convert_openai_chat_completion_stream_def process_chunk_def example_chunk_def
  example_call_def example_decoder_def mk_chunk_def next_event_type_def Let_def
  convert_openai_logprobs_def convert_openai_tool_calls_def str_or_empty_def
  convert_tool_call_def ToolCall_new_def validate_tool_name_def builtin_tool_table_def
  example_arguments_def example_nested_arguments_def

subsection \<open>Stream response mapper: the empty stream\<close>

text \<open>
  C10. On the empty stream the mapper yields one event only: the complete event, with the
  empty string as delta and no stop reason. No start event and no progress event is
  yielded, no warning is issued and nothing is raised.
\<close>

theorem empty_stream_only_complete:
  "convert_openai_chat_completion_stream json_loads [] =
     ([\<lparr>event = \<lparr>event_type = complete, event_delta = TextDelta '''',
                   event_logprobs = None, stop_reason = None\<rparr>\<rparr>], [], None)"
  by (simp add: convert_openai_chat_completion_stream_def mk_chunk_def)

text \<open>
  C2. The lifecycle asks for a start event first, in every stream, the empty one
  included. On the empty stream the mapper yields the complete event alone, so the
  event sequence has no start event and is not a lifecycle. (\<open>stream_lifecycle\<close> above
  is what holds: every stream of at least one chunk that is processed without a
  failure yields a lifecycle.)
\<close>

theorem empty_stream_breaks_lifecycle:
  "event_types (fst (convert_openai_chat_completion_stream json_loads [])) = [complete]
   \<and> \<not> lifecycle (event_types (fst (convert_openai_chat_completion_stream json_loads [])))"
  by (simp add: convert_openai_chat_completion_stream_def mk_chunk_def event_types_def
        lifecycle_def)

subsection \<open>Stream response mapper: the stop reason\<close>

text \<open>
  C1. The stop reason is not latched. The finish-reason mapper returns a stop reason
  for every argument, the absent one included, and every stop reason is true, so
  \<^verbatim>\<open>_convert_openai_finish_reason(choice.finish_reason) or stop_reason\<close> never falls back
  on the previous value: each chunk overwrites it. On the stream of a chunk with finish
  reason "length" followed by a chunk without finish reason, the complete event carries
  end_of_turn, not out_of_tokens; on the stream of one chunk without finish reason, it
  carries end_of_turn and is not absent.
\<close>

theorem stop_reason_overwritten_by_later_chunk:
  "convert_openai_chat_completion_stream json_loads
     [example_chunk (Some ''a'') None (Some ''length''), example_chunk (Some ''b'') None None]
   = ([mk_chunk start (TextDelta ''a'') None None,
       mk_chunk progress (TextDelta ''b'') None None,
       mk_chunk complete (TextDelta '''') None (Some end_of_turn)], [], None)
   \<and> convert_openai_chat_completion_stream json_loads [example_chunk (Some ''a'') None None]
   = ([mk_chunk start (TextDelta ''a'') None None,
       mk_chunk complete (TextDelta '''') None (Some end_of_turn)], [], None)"
  by (simp add: stream_eval convert_openai_finish_reason_def finish_reason_table_def)

text \<open>
  In general the complete event of a stream of at least one chunk, processed without a
  failure, carries the stop reason mapped from the last chunk's finish reason, whatever
  the chunks before it carried.
\<close>

theorem complete_event_stop_reason:
  assumes "convert_openai_chat_completion_stream json_loads chunks = (evs, ws, None)"
    and "chunks \<noteq> []"
  shows "stop_reason (event (last evs))
           = Some (convert_openai_finish_reason (last_finish_reason chunks))"
proof -
  from assms(1) obtain e1 st' where
    sc: "stream_chunks json_loads (False, None) chunks = (e1, ws, Inr st')"
    and evs: "evs = e1 @ [mk_chunk complete (TextDelta '''') None (snd st')]"
    by (auto simp: convert_openai_chat_completion_stream_def split: prod.splits sum.splits)
  from stream_chunks_stop_reason [OF sc assms(2)] evs show ?thesis
    by (simp add: mk_chunk_def)
qed

subsection \<open>Stream response mapper: content and tool calls in one chunk\<close>

text \<open>
  C8, as stated, fails when the chunk is the first of its stream: the event that carries
  the content takes the first value of the event type generator and is a start event,
  not a progress event.
\<close>

theorem content_event_of_first_chunk_is_start:
  "convert_openai_chat_completion_stream example_decoder
     [example_chunk (Some ''x'') (Some [example_call ''1'' ''f'' ''{}'']) None]
   = ([mk_chunk start (TextDelta ''x'') None None,
       mk_chunk progress
         (CallDelta \<lparr>tcd_content =
                       Inr \<lparr>call_id = ''1'', tool_name = Inr ''f'', arguments = PDict []\<rparr>,
                     parse_status = success\<rparr>) None None,
       mk_chunk complete (TextDelta '''') None (Some end_of_turn)], [], None)
   \<and> event_type (event (hd (fst (convert_openai_chat_completion_stream example_decoder
          [example_chunk (Some ''x'') (Some [example_call ''1'' ''f'' ''{}'']) None])))) \<noteq> progress"
  by (simp add: stream_eval convert_openai_finish_reason_def finish_reason_table_def)

text \<open>
  A chunk with content and a tool call whose arguments decode to a list, which the
  constructor of \<^verbatim>\<open>ToolCall\<close> does not take: the content event is yielded and the
  validation error ends the stream.
\<close>

lemma content_event_then_validation_error:
  "convert_openai_chat_completion_stream example_decoder
     [example_chunk (Some ''x'') (Some [example_call ''1'' ''f'' ''[1]'']) None]
   = ([mk_chunk start (TextDelta ''x'') None None], [], Some ValidationError)"
  by (simp add: stream_eval)

text \<open>
  C8, amended. Take a chunk whose delta carries a non-empty content string and a
  non-empty list of tool calls, each of whose arguments decode to a value that the
  constructor of \<^verbatim>\<open>ToolCall\<close> takes, and whose log-probabilities convert, after chunks
  that were processed without a failure. For that chunk the mapper yields exactly two
  events, in order: an event whose delta is the content string, of type start when the
  chunk is the first of the stream and of type progress otherwise; then a progress
  event whose delta is a ToolCallDelta that wraps the first tool call, mapped (its name
  the member of \<^verbatim>\<open>BuiltinTool\<close> when it names a built-in tool), with parse status
  success. When the delta carries more than one tool call, one warning is issued and
  the others are left out. If the chunk is the last one, the complete event follows.
\<close>

theorem content_then_tool_call_events:
  fixes json_loads chunks_before chunk choice call said args lps
  defines "first_event \<equiv>
      mk_chunk (if chunks_before = [] then start else progress) (TextDelta said) lps None"
    and "second_event \<equiv>
      mk_chunk progress
        (CallDelta \<lparr>tcd_content =
                      Inr \<lparr>call_id = tc_id call,
                           tool_name = validate_tool_name (fn_name (tc_function call)),
                           arguments = args\<rparr>,
                    parse_status = success\<rparr>) lps None"
  assumes before: "stream_chunks json_loads (False, None) chunks_before = (evs, ws, Inr st)"
    and choice: "choices chunk = choice # others"
    and said: "delta_content (delta choice) = Some said" "said \<noteq> ''''"
    and calls: "delta_tool_calls (delta choice) = Some (call # calls)"
    and first: "json_loads (fn_arguments (tc_function call)) = Some args" "valid_arguments args"
    and rest: "\<forall>c \<in> set calls. accepted json_loads c"
    and lps: "convert_openai_logprobs (chunk_logprobs choice) = Inr lps"
  shows "stream_chunks json_loads (False, None) (chunks_before @ [chunk]) =
           (evs @ [first_event, second_event],
            ws @ (if calls = [] then [] else [multiple_tool_calls_warning]),
            Inr (True, Some (convert_openai_finish_reason (chunk_finish_reason choice))))
       \<and> convert_openai_chat_completion_stream json_loads (chunks_before @ [chunk]) =
           (evs @ [first_event, second_event,
                   mk_chunk complete (TextDelta '''') None
                     (Some (convert_openai_finish_reason (chunk_finish_reason choice)))],
            ws @ (if calls = [] then [] else [multiple_tool_calls_warning]),
            None)"
proof -
  from stream_chunks_taken [OF before] have taken: "fst st = (chunks_before \<noteq> [])"
    by simp
  have pc: "process_chunk json_loads st chunk =
     ([first_event, second_event],
      (if calls = [] then [] else [multiple_tool_calls_warning]),
      Inr (True, Some (convert_openai_finish_reason (chunk_finish_reason choice))))"
    unfolding first_event_def second_event_def
    using process_chunk_content_and_calls [OF choice said calls first rest lps, of st] taken
    by (simp add: to_tool_call_def)
  have loop: "stream_chunks json_loads (False, None) (chunks_before @ [chunk]) =
           (evs @ [first_event, second_event],
            ws @ (if calls = [] then [] else [multiple_tool_calls_warning]),
            Inr (True, Some (convert_openai_finish_reason (chunk_finish_reason choice))))"
    by (simp add: stream_chunks_append before pc)
  then show ?thesis
    by (simp add: convert_openai_chat_completion_stream_def)
qed

theorem content_then_tool_call_events_witness:
  "convert_openai_chat_completion_stream example_decoder
     [example_chunk (Some ''Hel'') None None,
      example_chunk (Some ''x'')
        (Some [example_call ''1'' ''f'' ''{}'', example_call ''2'' ''g'' example_arguments])
        (Some ''tool_calls'')]
   = ([mk_chunk start (TextDelta ''Hel'') None None,
       mk_chunk progress (TextDelta ''x'') None None,
       mk_chunk progress
         (CallDelta \<lparr>tcd_content =
                       Inr \<lparr>call_id = ''1'', tool_name = Inr ''f'', arguments = PDict []\<rparr>,
                     parse_status = success\<rparr>) None None,
       mk_chunk complete (TextDelta '''') None (Some end_of_message)],
      [multiple_tool_calls_warning], None)"
proof -
  let ?calls = "[example_call ''2'' ''g'' example_arguments]"
  let ?choice = "\<lparr>delta = \<lparr>delta_content = Some ''x'',
                         delta_tool_calls = Some (example_call ''1'' ''f'' ''{}'' # ?calls)\<rparr>,
                 chunk_finish_reason = Some ''tool_calls'', chunk_logprobs = None\<rparr>"
  let ?chunk = "example_chunk (Some ''x'') (Some (example_call ''1'' ''f'' ''{}'' # ?calls))
                  (Some ''tool_calls'')"
  have before: "stream_chunks example_decoder (False, None) [example_chunk (Some ''Hel'') None None]
      = ([mk_chunk start (TextDelta ''Hel'') None None], [], Inr (True, Some end_of_turn))"
    by (simp add: stream_eval convert_openai_finish_reason_def finish_reason_table_def)
  have choice: "choices ?chunk = ?choice # []"
    by (simp add: example_chunk_def)
  have said: "delta_content (delta ?choice) = Some ''x''" "''x'' \<noteq> ''''"
    by simp_all
  have calls: "delta_tool_calls (delta ?choice) = Some (example_call ''1'' ''f'' ''{}'' # ?calls)"
    by simp
  have first: "example_decoder (fn_arguments (tc_function (example_call ''1'' ''f'' ''{}'')))
      = Some (PDict [])" "valid_arguments (PDict [])"
    by (simp_all add: example_decoder_def example_call_def example_arguments_def
          example_nested_arguments_def)
  have rest: "\<forall>c \<in> set ?calls. accepted example_decoder c"
    by (simp add: accepted_def example_decoder_def example_call_def)
  have lps: "convert_openai_logprobs (chunk_logprobs ?choice) = Inr None"
    by (simp add: convert_openai_logprobs_def)
  have fr: "convert_openai_finish_reason (Some ''tool_calls'') = end_of_message"
    by (simp add: convert_openai_finish_reason_def finish_reason_table_def)
  have name: "validate_tool_name ''f'' = Inr ''f''"
    by (simp add: validate_tool_name_def builtin_tool_table_def)
  from content_then_tool_call_events [OF before choice said calls first rest lps] fr name
  show ?thesis by (simp add: example_call_def)
qed

subsection \<open>Malformed tool-call arguments\<close>

text \<open>
  C7, as stated, fails where something else is raised before the parse error. In a list
  of two calls of which the first has arguments \<^verbatim>\<open>[1]\<close>, which decode to a list, and the
  second has arguments that are not valid JSON, the mapper fails at the first call with
  the validation error of the constructor and never decodes the second. In the stream,
  a chunk with content, a tool call whose arguments are not valid JSON and
  log-probabilities without content fails with the type error of the log-probability
  mapper, which the content event evaluates before the tool calls are looked at.
\<close>

theorem parse_error_preempted:
  "convert_openai_tool_calls example_decoder
     (Some [example_call ''1'' ''f'' ''[1]'', example_call ''2'' ''g'' ''{not json''])
     = Inl ValidationError
   \<and> example_decoder ''{not json'' = None
   \<and> convert_openai_chat_completion_stream example_decoder
       [\<lparr>choices =
           [\<lparr>delta = \<lparr>delta_content = Some ''x'',
                       delta_tool_calls = Some [example_call ''1'' ''f'' ''{not json'']\<rparr>,
             chunk_finish_reason = None,
             chunk_logprobs = Some \<lparr>lp_content = None\<rparr>\<rparr>]\<rparr>]
     = ([], [], Some TypeError)"
  by (simp add: stream_eval)

text \<open>
  C7, amended. If the arguments of a call are not valid JSON and every call before it
  in the list is accepted (its arguments decode to a value that the constructor of
  \<^verbatim>\<open>ToolCall\<close> takes), the tool-call mapper fails with the parse error of that call,
  whatever the calls after it. Nothing catches an error of the tool-call mapper: the
  non-stream mapper fails with it past its assertions. The stream mapper ends at the
  chunk that holds the call, after the events of the chunks before: with the parse
  error and no event of the chunk when the chunk has no content; with the content
  event and then the parse error when it has content and its log-probabilities
  convert; with the error of the log-probability mapper when it has content and its
  log-probabilities do not convert. The chunks after the offending one are not read,
  no complete event is yielded, and nothing is retried.
\<close>

theorem malformed_arguments_propagate:
  "(\<forall>good bad later.
      (\<forall>call \<in> set good. accepted json_loads call)
      \<and> json_loads (fn_arguments (tc_function bad)) = None \<longrightarrow>
      convert_openai_tool_calls json_loads (Some (good @ bad # later))
        = Inl (JSONDecodeError (fn_arguments (tc_function bad))))
   \<and> (\<forall>choice m e.
      message choice = Some m \<and> finish_reason choice \<noteq> None \<and> finish_reason choice \<noteq> Some ''''
      \<and> convert_openai_tool_calls json_loads (msg_tool_calls m) = Inl e \<longrightarrow>
      convert_openai_chat_completion_choice json_loads choice = Inl e)
   \<and> (\<forall>chunks_before chunk chunks_after evs ws st choice others good bad later.
      stream_chunks json_loads (False, None) chunks_before = (evs, ws, Inr st)
      \<and> choices chunk = choice # others
      \<and> delta_tool_calls (delta choice) = Some (good @ bad # later)
      \<and> (\<forall>call \<in> set good. accepted json_loads call)
      \<and> json_loads (fn_arguments (tc_function bad)) = None \<longrightarrow>
      convert_openai_chat_completion_stream json_loads (chunks_before @ chunk # chunks_after)
        = (case delta_content (delta choice) of
             Some (c # cs) \<Rightarrow>
               (case convert_openai_logprobs (chunk_logprobs choice) of
                  Inl e' \<Rightarrow> (evs, ws, Some e')
                | Inr lps \<Rightarrow>
                    (evs @ [mk_chunk (if chunks_before = [] then start else progress)
                              (TextDelta (c # cs)) lps None],
                     ws @ (if length (good @ bad # later) > 1
                           then [multiple_tool_calls_warning] else []),
                     Some (JSONDecodeError (fn_arguments (tc_function bad)))))
           | _ \<Rightarrow>
               (evs,
                ws @ (if length (good @ bad # later) > 1
                      then [multiple_tool_calls_warning] else []),
                Some (JSONDecodeError (fn_arguments (tc_function bad))))))"
proof (intro conjI allI impI)
  fix good later :: "OpenAIToolCall list" and bad :: OpenAIToolCall
  assume "(\<forall>call \<in> set good. accepted json_loads call)
      \<and> json_loads (fn_arguments (tc_function bad)) = None"
  then show "convert_openai_tool_calls json_loads (Some (good @ bad # later))
        = Inl (JSONDecodeError (fn_arguments (tc_function bad)))"
    by (simp add: convert_openai_tool_calls_each convert_each_tool_call_first_failure
          convert_tool_call_not_decoded)
next
  fix choice :: OpenAIChoice and m e
  assume "message choice = Some m \<and> finish_reason choice \<noteq> None \<and> finish_reason choice \<noteq> Some ''''
      \<and> convert_openai_tool_calls json_loads (msg_tool_calls m) = Inl e"
  then show "convert_openai_chat_completion_choice json_loads choice = Inl e"
    by (auto simp: convert_openai_chat_completion_choice_def)
next
  fix chunks_before chunks_after :: "OpenAIChatCompletionChunk list"
    and chunk :: OpenAIChatCompletionChunk and choice :: ChunkChoice
    and good later :: "OpenAIToolCall list" and bad :: OpenAIToolCall
    and evs ws st others
  let ?e = "JSONDecodeError (fn_arguments (tc_function bad))"
  let ?warned = "if length (good @ bad # later) > 1 then [multiple_tool_calls_warning] else []"
  assume a: "stream_chunks json_loads (False, None) chunks_before = (evs, ws, Inr st)
      \<and> choices chunk = choice # others
      \<and> delta_tool_calls (delta choice) = Some (good @ bad # later)
      \<and> (\<forall>call \<in> set good. accepted json_loads call)
      \<and> json_loads (fn_arguments (tc_function bad)) = None"
  then have before: "stream_chunks json_loads (False, None) chunks_before = (evs, ws, Inr st)"
    and choice: "choices chunk = choice # others"
    and calls: "delta_tool_calls (delta choice) = Some (good @ bad # later)"
    and good: "\<forall>call \<in> set good. accepted json_loads call"
    and bad: "json_loads (fn_arguments (tc_function bad)) = None"
    by simp_all
  from good bad have conv: "convert_openai_tool_calls json_loads (Some (good @ bad # later)) = Inl ?e"
    by (simp add: convert_openai_tool_calls_each convert_each_tool_call_first_failure
          convert_tool_call_not_decoded)
  from stream_chunks_taken [OF before] have taken: "fst st = (chunks_before \<noteq> [])"
    by simp
  note pc = process_chunk_tool_calls_fail [OF choice calls conv, of st]
  have "stream_chunks json_loads (False, None) (chunks_before @ chunk # chunks_after)
        = (case delta_content (delta choice) of
             Some (c # cs) \<Rightarrow>
               (case convert_openai_logprobs (chunk_logprobs choice) of
                  Inl e' \<Rightarrow> (evs, ws, Inl e')
                | Inr lps \<Rightarrow>
                    (evs @ [mk_chunk (if chunks_before = [] then start else progress)
                              (TextDelta (c # cs)) lps None],
                     ws @ ?warned, Inl ?e))
           | _ \<Rightarrow> (evs, ws @ ?warned, Inl ?e))"
    using pc taken
    by (simp add: stream_chunks_append before split: option.splits list.splits sum.splits)
  then show "convert_openai_chat_completion_stream json_loads (chunks_before @ chunk # chunks_after)
        = (case delta_content (delta choice) of
             Some (c # cs) \<Rightarrow>
               (case convert_openai_logprobs (chunk_logprobs choice) of
                  Inl e' \<Rightarrow> (evs, ws, Some e')
                | Inr lps \<Rightarrow>
                    (evs @ [mk_chunk (if chunks_before = [] then start else progress)
                              (TextDelta (c # cs)) lps None],
                     ws @ ?warned, Some ?e))
           | _ \<Rightarrow> (evs, ws @ ?warned, Some ?e))"
    by (simp add: convert_openai_chat_completion_stream_def
          split: option.splits list.splits sum.splits)
qed

theorem malformed_arguments_propagate_witness:
  "convert_openai_tool_calls example_decoder
     (Some [example_call ''1'' ''f'' ''{}'', example_call ''2'' ''g'' ''{not json''])
     = Inl (JSONDecodeError ''{not json'')
   \<and> convert_openai_chat_completion_choice example_decoder
       (example_choice
          (Some \<lparr>msg_content = Some ''x'',
                 msg_tool_calls = Some [example_call ''1'' ''f'' ''{}'',
                                        example_call ''2'' ''g'' ''{not json'']\<rparr>)
          (Some ''tool_calls''))
     = Inl (JSONDecodeError ''{not json'')
   \<and> convert_openai_chat_completion_stream example_decoder
       [example_chunk (Some ''Hel'') None None,
        example_chunk (Some ''x'')
          (Some [example_call ''1'' ''f'' ''{}'', example_call ''2'' ''g'' ''{not json'']) None,
        example_chunk None None (Some ''stop'')]
     = ([mk_chunk start (TextDelta ''Hel'') None None,
         mk_chunk progress (TextDelta ''x'') None None],
        [multiple_tool_calls_warning],
        Some (JSONDecodeError ''{not json''))
   \<and> convert_openai_chat_completion_stream example_decoder
       [example_chunk (Some ''Hel'') None None,
        example_chunk None (Some [example_call ''2'' ''g'' ''{not json'']) None,
        example_chunk None None (Some ''stop'')]
     = ([mk_chunk start (TextDelta ''Hel'') None None], [],
        Some (JSONDecodeError ''{not json''))"
proof -
  let ?good = "example_call ''1'' ''f'' ''{}''"
  let ?bad = "example_call ''2'' ''g'' ''{not json''"
  let ?m = "\<lparr>msg_content = Some ''x'', msg_tool_calls = Some [?good, ?bad]\<rparr>"
  let ?choice = "\<lparr>delta = \<lparr>delta_content = Some ''x'', delta_tool_calls = Some ([?good] @ ?bad # [])\<rparr>,
                 chunk_finish_reason = None, chunk_logprobs = None\<rparr>"
  let ?choice' = "\<lparr>delta = \<lparr>delta_content = None, delta_tool_calls = Some ([] @ ?bad # [])\<rparr>,
                  chunk_finish_reason = None, chunk_logprobs = None\<rparr>"
  note mapper = malformed_arguments_propagate
                  [of example_decoder, THEN conjunct1, rule_format, of "[?good]" ?bad "[]"]
  note choice = malformed_arguments_propagate
                  [of example_decoder, THEN conjunct2, THEN conjunct1, rule_format,
                   of "example_choice (Some ?m) (Some ''tool_calls'')" ?m
                      "JSONDecodeError ''{not json''"]
  note streamed = malformed_arguments_propagate
                  [of example_decoder, THEN conjunct2, THEN conjunct2, rule_format,
                   where chunks_before = "[example_chunk (Some ''Hel'') None None]"
                     and evs = "[mk_chunk start (TextDelta ''Hel'') None None]" and ws = "[]"
                     and st = "(True, Some end_of_turn)"
                     and chunk = "example_chunk (Some ''x'') (Some [?good, ?bad]) None"
                     and choice = ?choice and others = "[]"
                     and good = "[?good]" and bad = ?bad and later = "[]"
                     and chunks_after = "[example_chunk None None (Some ''stop'')]"]
  note streamed' = malformed_arguments_propagate
                  [of example_decoder, THEN conjunct2, THEN conjunct2, rule_format,
                   where chunks_before = "[example_chunk (Some ''Hel'') None None]"
                     and evs = "[mk_chunk start (TextDelta ''Hel'') None None]" and ws = "[]"
                     and st = "(True, Some end_of_turn)"
                     and chunk = "example_chunk None (Some [?bad]) None"
                     and choice = ?choice' and others = "[]"
                     and good = "[]" and bad = ?bad and later = "[]"
                     and chunks_after = "[example_chunk None None (Some ''stop'')]"]
  have decoded: "\<forall>call \<in> set [?good]. accepted example_decoder call"
    "example_decoder (fn_arguments (tc_function ?bad)) = None"
    by (simp_all add: accepted_def example_decoder_def example_call_def example_arguments_def
          example_nested_arguments_def)
  from mapper decoded
  have one: "convert_openai_tool_calls example_decoder (Some [?good, ?bad])
      = Inl (JSONDecodeError ''{not json'')"
    by (simp add: example_call_def)
  have before: "stream_chunks example_decoder (False, None) [example_chunk (Some ''Hel'') None None]
      = ([mk_chunk start (TextDelta ''Hel'') None None], [], Inr (True, Some end_of_turn))"
    by (simp add: stream_eval convert_openai_finish_reason_def finish_reason_table_def)
  from choice one
  have two: "convert_openai_chat_completion_choice example_decoder
       (example_choice (Some ?m) (Some ''tool_calls'')) = Inl (JSONDecodeError ''{not json'')"
    by (simp add: example_choice_def)
  from streamed before decoded
  have three: "convert_openai_chat_completion_stream example_decoder
       [example_chunk (Some ''Hel'') None None,
        example_chunk (Some ''x'') (Some [?good, ?bad]) None,
        example_chunk None None (Some ''stop'')]
     = ([mk_chunk start (TextDelta ''Hel'') None None,
         mk_chunk progress (TextDelta ''x'') None None],
        [multiple_tool_calls_warning],
        Some (JSONDecodeError ''{not json''))"
    by (simp add: example_chunk_def example_call_def convert_openai_logprobs_def)
  from streamed' before decoded
  have four: "convert_openai_chat_completion_stream example_decoder
       [example_chunk (Some ''Hel'') None None,
        example_chunk None (Some [?bad]) None,
        example_chunk None None (Some ''stop'')]
     = ([mk_chunk start (TextDelta ''Hel'') None None], [],
        Some (JSONDecodeError ''{not json''))"
    by (simp add: example_chunk_def example_call_def)
  from one two three four show ?thesis by simp
qed

subsection \<open>Non-stream response mapper\<close>

text \<open>
  C9. The non-stream mapper fails with an assertion error when the choice has no
  message, and when it has a message but its finish reason is absent or empty.
  Otherwise its response is made of the results of the three mappers: the content is
  the message's, the empty string when it is absent; the stop reason is the
  finish-reason mapper's; the tool calls are the tool-call mapper's; the
  log-probabilities are the log-probability mapper's. It fails past the assertions
  only when the tool-call mapper or the log-probability mapper fails, with their error.
\<close>

theorem choice_mapper_contract:
  "(message choice = None \<longrightarrow>
      convert_openai_chat_completion_choice json_loads choice
        = Inl (AssertionError ''error in server response: message not found''))
   \<and> (message choice \<noteq> None \<and> (finish_reason choice = None \<or> finish_reason choice = Some '''') \<longrightarrow>
      convert_openai_chat_completion_choice json_loads choice
        = Inl (AssertionError ''error in server response: finish_reason not found''))
   \<and> (\<forall>m calls lps.
        message choice = Some m \<and> finish_reason choice \<noteq> None \<and> finish_reason choice \<noteq> Some ''''
        \<and> convert_openai_tool_calls json_loads (msg_tool_calls m) = Inr calls
        \<and> convert_openai_logprobs (logprobs choice) = Inr lps \<longrightarrow>
        convert_openai_chat_completion_choice json_loads choice
          = Inr \<lparr>completion_message =
                   \<lparr>cm_content = (case msg_content m of None \<Rightarrow> '''' | Some text \<Rightarrow> text),
                    cm_stop_reason = convert_openai_finish_reason (finish_reason choice),
                    cm_tool_calls = calls\<rparr>,
                 response_logprobs = lps\<rparr>)
   \<and> (\<forall>m. message choice = Some m \<and> finish_reason choice \<noteq> None \<and> finish_reason choice \<noteq> Some ''''
        \<longrightarrow> (\<forall>e. convert_openai_chat_completion_choice json_loads choice = Inl e \<longleftrightarrow>
               convert_openai_tool_calls json_loads (msg_tool_calls m) = Inl e
               \<or> (\<exists>calls. convert_openai_tool_calls json_loads (msg_tool_calls m) = Inr calls)
                  \<and> convert_openai_logprobs (logprobs choice) = Inl e))"
  by (auto simp: convert_openai_chat_completion_choice_def str_or_empty_def
        split: option.splits sum.splits)

theorem choice_mapper_contract_witness:
  "convert_openai_chat_completion_choice example_decoder (example_choice None (Some ''stop''))
     = Inl (AssertionError ''error in server response: message not found'')
   \<and> convert_openai_chat_completion_choice example_decoder
       (example_choice (Some \<lparr>msg_content = Some ''hi'', msg_tool_calls = None\<rparr>) (Some ''''))
     = Inl (AssertionError ''error in server response: finish_reason not found'')
   \<and> convert_openai_chat_completion_choice example_decoder
       (example_choice (Some \<lparr>msg_content = Some ''hi'', msg_tool_calls = None\<rparr>) None)
     = Inl (AssertionError ''error in server response: finish_reason not found'')
   \<and> convert_openai_chat_completion_choice example_decoder
       (example_choice
          (Some \<lparr>msg_content = None,
                 msg_tool_calls = Some [example_call ''1'' ''f'' example_arguments]\<rparr>)
          (Some ''tool_calls''))
     = Inr \<lparr>completion_message =
              \<lparr>cm_content = '''', cm_stop_reason = end_of_message,
               cm_tool_calls = [\<lparr>call_id = ''1'', tool_name = Inr ''f'',
                                 arguments = PDict [(PStr ''x'', PInt 1)]\<rparr>]\<rparr>,
            response_logprobs = None\<rparr>"
proof -
  let ?m = "\<lparr>msg_content = None,
             msg_tool_calls = Some [example_call ''1'' ''f'' example_arguments]\<rparr>"
  have calls: "convert_openai_tool_calls example_decoder (msg_tool_calls ?m)
      = Inr [\<lparr>call_id = ''1'', tool_name = Inr ''f'', arguments = PDict [(PStr ''x'', PInt 1)]\<rparr>]"
    by (simp add: convert_openai_tool_calls_def convert_tool_call_def ToolCall_new_def
          validate_tool_name_def builtin_tool_table_def example_call_def example_decoder_def)
  have lps: "convert_openai_logprobs (logprobs (example_choice (Some ?m) (Some ''tool_calls'')))
      = Inr None"
    by (simp add: convert_openai_logprobs_def example_choice_def)
  have fr: "convert_openai_finish_reason (Some ''tool_calls'') = end_of_message"
    by (simp add: convert_openai_finish_reason_def finish_reason_table_def)
  from choice_mapper_contract [of "example_choice None (Some ''stop'')" example_decoder]
       choice_mapper_contract
         [of "example_choice (Some \<lparr>msg_content = Some ''hi'', msg_tool_calls = None\<rparr>) (Some '''')"
             example_decoder]
       choice_mapper_contract
         [of "example_choice (Some \<lparr>msg_content = Some ''hi'', msg_tool_calls = None\<rparr>) None"
             example_decoder]
       choice_mapper_contract [of "example_choice (Some ?m) (Some ''tool_calls'')" example_decoder]
       calls lps fr
  show ?thesis
    by (simp add: example_choice_def)
qed

end
